theory Spec2Isabelle
  imports Complex_Main "HOL-Library.Log_Nat"
begin

section \<open>JavaScript numbers\<close>

text \<open>
  \<^verbatim>\<open>server.js\<close> computes prices with JavaScript numbers, which are IEEE 754
  binary64 values. A number is \<open>NaN\<close>, an infinity with its sign, or a finite value
  given by its sign (\<open>True\<close> for negative) and its magnitude, a rational that is a
  double; \<open>+0\<close> is \<open>JFin False 0\<close> and \<open>-0\<close> is \<open>JFin True 0\<close>.
  \<open>to_double\<close> rounds a non-negative rational to the nearest double, ties to even,
  with gradual underflow below \<open>2^-1022\<close> and overflow to infinity from
  \<open>2^1024 - 2^970\<close> on. \<open>lit q\<close> is the value of the numeric literal \<open>q\<close>.
\<close>

datatype jsnum = JNaN | JInf bool | JFin bool rat

definition pow2 :: "int \<Rightarrow> rat" where
  "pow2 e = (if 0 \<le> e then 2 ^ nat e else 1 / 2 ^ nat (- e))"

definition pow10 :: "int \<Rightarrow> rat" where
  "pow10 e = (if 0 \<le> e then 10 ^ nat e else 1 / 10 ^ nat (- e))"

definition ilog2 :: "rat \<Rightarrow> int" where
  "ilog2 q = (let (a, b) = quotient_of q; d = bitlen a - bitlen b
              in if pow2 d \<le> q then d else d - 1)"

definition round_half_even :: "rat \<Rightarrow> int" where
  "round_half_even q = (let n = \<lfloor>q\<rfloor>; r = q - of_int n
     in if r < 1 / 2 then n else if 1 / 2 < r then n + 1
        else if even n then n else n + 1)"

definition to_double :: "bool \<Rightarrow> rat \<Rightarrow> jsnum" where
  "to_double s q = (if q = 0 then JFin s 0 else
     let e = max (ilog2 q) (- 1022); u = pow2 (e - 52);
         n = round_half_even (q / u)
     in if 1023 < e \<or> (e = 1023 \<and> n = 2 ^ 53) then JInf s else JFin s (of_int n * u))"

abbreviation lit :: "rat \<Rightarrow> jsnum" where
  "lit q \<equiv> to_double False q"

text \<open>The operator \<^verbatim>\<open>*\<close> on two numbers.\<close>

fun js_mul :: "jsnum \<Rightarrow> jsnum \<Rightarrow> jsnum" where
  "js_mul JNaN _ = JNaN"
| "js_mul _ JNaN = JNaN"
| "js_mul (JInf s) (JInf t) = JInf (s \<noteq> t)"
| "js_mul (JInf s) (JFin t b) = (if b = 0 then JNaN else JInf (s \<noteq> t))"
| "js_mul (JFin s a) (JInf t) = (if a = 0 then JNaN else JInf (s \<noteq> t))"
| "js_mul (JFin s a) (JFin t b) = to_double (s \<noteq> t) (a * b)"

subsection \<open>Numbers to strings\<close>

text \<open>
  \<open>number_to_string\<close> is \<^verbatim>\<open>Number::toString\<close> in radix 10: the shortest decimal
  digit string that reads back as the same double (the closest such string when several
  have that length), in positional notation for decimal exponents from \<open>-6\<close> to
  \<open>21\<close> and in exponent notation outside. \<open>toFixed f\<close> is
  \<^verbatim>\<open>Number.prototype.toFixed(f)\<close> for \<open>0 \<le> f \<le> 100\<close>: a value that is not finite, or whose
  magnitude is at least \<open>10^21\<close>, is rendered by \<open>number_to_string\<close>; any other value
  is rounded to \<open>f\<close> decimals, a tie going to the larger magnitude.
\<close>

function int_digits :: "int \<Rightarrow> string" where
  "int_digits n = (if n < 10 then [''0123456789'' ! nat n]
                   else int_digits (n div 10) @ [''0123456789'' ! nat (n mod 10)])"
  by pat_completeness auto
termination
  by (relation "measure nat") auto

declare int_digits.simps [simp del]

text \<open>
  \<open>ilog10 q\<close> is the decimal exponent of a positive \<open>q\<close>. \<open>reads_back q n k s\<close> says that
  the decimal \<open>s \<times> 10^(n - k)\<close> is read as the double \<open>q\<close>. The values that are read as
  \<open>q\<close> form an interval around \<open>q\<close>, so some integer \<open>s\<close> of \<open>k\<close> digits reads back
  exactly when one of the two integers around \<open>q / 10^(n - k)\<close> does; the interval is not
  symmetric at a power of two, so the one that reads back need not be the nearer one.
  \<open>candidate q n k\<close> is the one of the two that reads back, the nearer one when both do
  and the even one on a tie; \<open>shortest\<close> takes the first \<open>k\<close> that has a candidate, and
  17 digits always do.
\<close>

definition ilog10 :: "rat \<Rightarrow> int" where
  "ilog10 q = (let (a, b) = quotient_of q;
                   d = int (length (int_digits a)) - int (length (int_digits b))
               in if pow10 d \<le> q then d else d - 1)"

definition round_half_up :: "rat \<Rightarrow> int" where
  "round_half_up q = \<lfloor>q + 1 / 2\<rfloor>"

definition reads_back :: "rat \<Rightarrow> int \<Rightarrow> nat \<Rightarrow> int \<Rightarrow> bool" where
  "reads_back q n k s = (to_double False (of_int s * pow10 (n - int k)) = JFin False q)"

definition candidate :: "rat \<Rightarrow> int \<Rightarrow> nat \<Rightarrow> (int \<times> int) option" where
  "candidate q n k =
     (let x = q / pow10 (n - int k);
          lo = \<lfloor>x\<rfloor>; hi = lo + 1;
          lo_ok = reads_back q n k lo; hi_ok = reads_back q n k hi;
          s = (if lo_ok \<and> hi_ok
               then (if x - of_int lo < of_int hi - x then lo
                     else if of_int hi - x < x - of_int lo then hi
                     else if even lo then lo else hi)
               else if lo_ok then lo else hi)
      in if lo_ok \<or> hi_ok
         then Some (if s = 10 ^ k then (10 ^ (k - 1), n + 1) else (s, n))
         else None)"

fun shortest :: "rat \<Rightarrow> int \<Rightarrow> nat \<Rightarrow> nat \<Rightarrow> (int \<times> int)" where
  "shortest q n k 0 = (round_half_up (q / pow10 (n - int k)), n)"
| "shortest q n k (Suc fuel) =
     (case candidate q n k of Some r \<Rightarrow> r | None \<Rightarrow> shortest q n (Suc k) fuel)"

definition pos_to_string :: "rat \<Rightarrow> string" where
  "pos_to_string q =
     (let (s, n) = shortest q (ilog10 q + 1) 1 17;
          ds = int_digits s; k = int (length ds)
      in if k \<le> n \<and> n \<le> 21 then ds @ replicate (nat (n - k)) (CHR ''0'')
         else if 0 < n \<and> n \<le> 21 then take (nat n) ds @ ''.'' @ drop (nat n) ds
         else if - 6 < n \<and> n \<le> 0 then ''0.'' @ replicate (nat (- n)) (CHR ''0'') @ ds
         else let e = n - 1;
                  ex = (if e < 0 then ''-'' else ''+'') @ int_digits \<bar>e\<bar>
              in if k = 1 then ds @ ''e'' @ ex
                 else take 1 ds @ ''.'' @ drop 1 ds @ ''e'' @ ex)"

fun number_to_string :: "jsnum \<Rightarrow> string" where
  "number_to_string JNaN = ''NaN''"
| "number_to_string (JInf s) = (if s then ''-Infinity'' else ''Infinity'')"
| "number_to_string (JFin s m) =
     (if m = 0 then ''0'' else (if s then ''-'' else '''') @ pos_to_string m)"

fun toFixed :: "nat \<Rightarrow> jsnum \<Rightarrow> string" where
  "toFixed f JNaN = number_to_string JNaN"
| "toFixed f (JInf s) = number_to_string (JInf s)"
| "toFixed f (JFin s x) =
     (if s \<and> x \<noteq> 0 then ''-'' else '''') @
     (if 10 ^ 21 \<le> x then number_to_string (JFin False x)
      else let n = round_half_up (x * 10 ^ f);
               m = int_digits n;
               m = (if length m \<le> f then replicate (f + 1 - length m) (CHR ''0'') @ m else m);
               k = length m
           in if f = 0 then m else take (k - f) m @ ''.'' @ drop (k - f) m)"

text \<open>
  The shape of a price with two decimals: an optional minus sign, at least one digit, a
  point and two digits. \<open>fixed_range\<close> holds for the finite numbers of magnitude below
  \<open>10^21\<close>, which \<open>toFixed\<close> renders in positional notation.
\<close>

definition is_digit :: "char \<Rightarrow> bool" where
  "is_digit c = (c \<in> set ''0123456789'')"

definition two_decimals :: "string \<Rightarrow> bool" where
  "two_decimals s =
     (let u = (if take 1 s = ''-'' then drop 1 s else s); n = length u
      in 4 \<le> n \<and> list_all is_digit (take (n - 3) u) \<and> u ! (n - 3) = CHR ''.'' \<and>
         list_all is_digit (drop (n - 2) u))"

definition fixed_range :: "jsnum \<Rightarrow> bool" where
  "fixed_range x = (case x of JFin s m \<Rightarrow> m < 10 ^ 21 | _ \<Rightarrow> False)"

subsection \<open>Strings to numbers\<close>

text \<open>
  \<open>string_to_number\<close> is \<^verbatim>\<open>StringToNumber\<close>, what \<^verbatim>\<open>Number(s)\<close> does on a string:
  white space is trimmed, the empty string is \<open>+0\<close>, a hexadecimal, octal or binary
  integer literal or a signed decimal literal is rounded to a double, and any other
  text is \<open>NaN\<close>. A string is a list of code units up to \<open>U+00FF\<close>.
\<close>

definition is_ws :: "char \<Rightarrow> bool" where
  "is_ws c = (of_char c \<in> {9, 10, 11, 12, 13, 32, 160 :: nat})"

definition trim :: "string \<Rightarrow> string" where
  "trim s = rev (dropWhile is_ws (rev (dropWhile is_ws s)))"

definition digit_of :: "char \<Rightarrow> int option" where
  "digit_of c = (let n = (of_char c :: int) in
     if 48 \<le> n \<and> n \<le> 57 then Some (n - 48)
     else if 97 \<le> n \<and> n \<le> 102 then Some (n - 87)
     else if 65 \<le> n \<and> n \<le> 70 then Some (n - 55)
     else None)"

fun digits_value :: "int \<Rightarrow> int \<Rightarrow> string \<Rightarrow> int option" where
  "digits_value r acc [] = Some acc"
| "digits_value r acc (c # cs) =
     (case digit_of c of
        None \<Rightarrow> None
      | Some d \<Rightarrow> if d < r then digits_value r (r * acc + d) cs else None)"

definition radix_digits :: "int \<Rightarrow> string \<Rightarrow> int option" where
  "radix_digits r s = (if s = [] then None else digits_value r 0 s)"

definition parse_exponent :: "string \<Rightarrow> int option" where
  "parse_exponent s =
     (case s of
        [] \<Rightarrow> None
      | c # cs \<Rightarrow>
          if c = CHR ''-'' then map_option uminus (radix_digits 10 cs)
          else if c = CHR ''+'' then radix_digits 10 cs
          else radix_digits 10 s)"

definition parse_unsigned_decimal :: "string \<Rightarrow> rat option" where
  "parse_unsigned_decimal s =
     (let is_e = (\<lambda>c. c = CHR ''e'' \<or> c = CHR ''E'');
          mant = takeWhile (\<lambda>c. \<not> is_e c) s;
          rest = dropWhile (\<lambda>c. \<not> is_e c) s;
          ip = takeWhile (\<lambda>c. c \<noteq> CHR ''.'') mant;
          dot = dropWhile (\<lambda>c. c \<noteq> CHR ''.'') mant;
          fp = drop 1 dot;
          ex = (if rest = [] then Some 0 else parse_exponent (drop 1 rest))
      in if ip = [] \<and> fp = [] then None
         else case (digits_value 10 0 ip, digits_value 10 0 fp, ex) of
                (Some i, Some f, Some e) \<Rightarrow>
                  Some ((of_int i + of_int f / pow10 (int (length fp))) * pow10 e)
              | _ \<Rightarrow> None)"

definition string_to_number :: "string \<Rightarrow> jsnum" where
  "string_to_number str =
     (let t = trim str; p = take 2 t in
      if t = [] then JFin False 0
      else if p = ''0x'' \<or> p = ''0X'' then
        (case radix_digits 16 (drop 2 t) of None \<Rightarrow> JNaN | Some n \<Rightarrow> lit (of_int n))
      else if p = ''0o'' \<or> p = ''0O'' then
        (case radix_digits 8 (drop 2 t) of None \<Rightarrow> JNaN | Some n \<Rightarrow> lit (of_int n))
      else if p = ''0b'' \<or> p = ''0B'' then
        (case radix_digits 2 (drop 2 t) of None \<Rightarrow> JNaN | Some n \<Rightarrow> lit (of_int n))
      else
        let neg = (take 1 t = ''-'');
            u = (if take 1 t = ''-'' \<or> take 1 t = ''+'' then drop 1 t else t)
        in if u = ''Infinity'' then JInf neg
           else case parse_unsigned_decimal u of
                  None \<Rightarrow> JNaN
                | Some q \<Rightarrow> to_double neg q)"

section \<open>Request values and their coercions\<close>

text \<open>
  \<^verbatim>\<open>express.json()\<close> parses the request body, so every field of an order request is
  a JSON value, or \<^verbatim>\<open>undefined\<close> when the body has no such field. A thrown exception
  is the left summand of a result.
\<close>

datatype json = JUndefined | JNull | JBool bool | JNum jsnum | JStr string
  | JArr "json list" | JObj "(string \<times> json) list"

datatype js_error = TypeError | DriverError

definition and_then :: "'e + 'a \<Rightarrow> ('a \<Rightarrow> 'e + 'b) \<Rightarrow> 'e + 'b" where
  "and_then m f = (case m of Inl e \<Rightarrow> Inl e | Inr x \<Rightarrow> f x)"

text \<open>\<^verbatim>\<open>ToBoolean\<close>, and the operator \<^verbatim>\<open>||\<close> built on it.\<close>

fun truthy :: "json \<Rightarrow> bool" where
  "truthy JUndefined = False"
| "truthy JNull = False"
| "truthy (JBool b) = b"
| "truthy (JNum JNaN) = False"
| "truthy (JNum (JInf s)) = True"
| "truthy (JNum (JFin s m)) = (m \<noteq> 0)"
| "truthy (JStr s) = (s \<noteq> [])"
| "truthy (JArr xs) = True"
| "truthy (JObj kvs) = True"

definition js_or :: "json \<Rightarrow> json \<Rightarrow> json" where
  "js_or a b = (if truthy a then a else b)"

text \<open>
  \<^verbatim>\<open>ToString\<close>, which also turns a value into a property key. An array is joined with
  commas, \<^verbatim>\<open>null\<close> elements giving the empty string. A parsed object inherits
  \<^verbatim>\<open>Object.prototype.toString\<close> and becomes \<^verbatim>\<open>[object Object]\<close>, unless it has a
  property \<^verbatim>\<open>toString\<close> of its own: a JSON value is never callable, so the conversion
  then finds no method that yields a primitive and throws a \<^verbatim>\<open>TypeError\<close>.
\<close>

fun to_string :: "json \<Rightarrow> js_error + string"
  and join_elems :: "json list \<Rightarrow> js_error + string" where
  "to_string JUndefined = Inr ''undefined''"
| "to_string JNull = Inr ''null''"
| "to_string (JBool b) = Inr (if b then ''true'' else ''false'')"
| "to_string (JNum x) = Inr (number_to_string x)"
| "to_string (JStr s) = Inr s"
| "to_string (JArr xs) = join_elems xs"
| "to_string (JObj kvs) =
     (if ''toString'' \<in> set (map fst kvs) then Inl TypeError else Inr ''[object Object]'')"
| "join_elems [] = Inr []"
| "join_elems (x # xs) =
     and_then (if x = JUndefined \<or> x = JNull then Inr [] else to_string x)
       (\<lambda>s. if xs = [] then Inr s
            else and_then (join_elems xs) (\<lambda>r. Inr (s @ '','' @ r)))"

text \<open>\<^verbatim>\<open>ToNumber\<close>, which is what \<^verbatim>\<open>Number(v)\<close> applies to its argument.\<close>

fun to_number :: "json \<Rightarrow> js_error + jsnum" where
  "to_number JUndefined = Inr JNaN"
| "to_number JNull = Inr (lit 0)"
| "to_number (JBool b) = Inr (if b then lit 1 else lit 0)"
| "to_number (JNum x) = Inr x"
| "to_number (JStr s) = Inr (string_to_number s)"
| "to_number v = and_then (to_string v) (\<lambda>s. Inr (string_to_number s))"

text \<open>\<^verbatim>\<open>x || 0\<close> on a number \<open>x\<close>: \<open>NaN\<close> and both zeros are falsy.\<close>

definition num_or_zero :: "jsnum \<Rightarrow> jsnum" where
  "num_or_zero x = (if truthy (JNum x) then x else lit 0)"

subsection \<open>Reading a property of an object literal\<close>

text \<open>
  The three price tables are object literals. Reading \<^verbatim>\<open>table[key]\<close> finds an own
  property first and then follows the prototype chain to \<^verbatim>\<open>Object.prototype\<close>, whose
  properties are functions (and, for \<^verbatim>\<open>__proto__\<close>, the prototype object itself). The
  result is \<^verbatim>\<open>undefined\<close> only when neither has the key. As an operand of \<^verbatim>\<open>*\<close>
  an inherited function or object converts to \<open>NaN\<close>.
\<close>

datatype jsval = Undefined | Number jsnum | Inherited

definition object_prototype_keys :: "string list" where
  "object_prototype_keys =
     [''constructor'', ''hasOwnProperty'', ''isPrototypeOf'', ''propertyIsEnumerable'',
      ''toLocaleString'', ''toString'', ''valueOf'', ''__proto__'',
      ''__defineGetter__'', ''__defineSetter__'', ''__lookupGetter__'', ''__lookupSetter__'']"

definition get_prop :: "(string \<times> jsnum) list \<Rightarrow> string \<Rightarrow> jsval" where
  "get_prop obj k =
     (case map_of obj k of
        Some x \<Rightarrow> Number x
      | None \<Rightarrow> if k \<in> set object_prototype_keys then Inherited else Undefined)"

text \<open>The operator \<^verbatim>\<open>??\<close> with a number on its right.\<close>

fun nullish_or :: "jsval \<Rightarrow> jsnum \<Rightarrow> jsval" where
  "nullish_or Undefined d = Number d"
| "nullish_or v d = v"

fun operand :: "jsval \<Rightarrow> jsnum" where
  "operand (Number x) = x"
| "operand Undefined = JNaN"
| "operand Inherited = JNaN"

definition lookup_or :: "(string \<times> jsnum) list \<Rightarrow> json \<Rightarrow> jsnum \<Rightarrow> js_error + jsval" where
  "lookup_or obj key d = and_then (to_string key) (\<lambda>k. Inr (nullish_or (get_prop obj k) d))"

section \<open>The order endpoint\<close>

subsection \<open>Price tables and the quote\<close>

definition materialCosts :: "(string \<times> jsnum) list" where
  "materialCosts =
     [(''PLA'', lit 0.05),
      (''ABS'', lit 0.06),
      (''PETG'', lit 0.07),
      (''TPU'', lit 0.08),
      (''ASA'', lit 0.07),
      (''PLA Glass'', lit 0.06),
      (''Engineering'', lit 0.12),
      (''ePLA'', lit 0.06)]"

definition qualityMultiplier :: "(string \<times> jsnum) list" where
  "qualityMultiplier =
     [(''0.2 mm Standard Quality'', lit 1),
      (''0.15 mm Medium Quality'', lit 1.2),
      (''0.1 mm High Quality'', lit 1.5),
      (''0.15 Standard Quality + 0.25 mm Nozzle'', lit 1.1),
      (''0.2 mm Standard Quality + 0.6mm Nozzle'', lit 1.05)]"

definition infillMultiplier :: "(string \<times> jsnum) list" where
  "infillMultiplier =
     [(''10%'', lit 0.5),
      (''15%'', lit 0.6),
      (''20%'', lit 0.8),
      (''30%'', lit 1),
      (''40%'', lit 1.1),
      (''50%'', lit 1.2),
      (''60%'', lit 1.3),
      (''70%'', lit 1.4),
      (''80%'', lit 1.5),
      (''90%'', lit 1.6)]"

text \<open>
  \<^verbatim>\<open>materialCosts[material] ?? 0.05\<close>, \<^verbatim>\<open>qualityMultiplier[quality] ?? 1\<close> and
  \<^verbatim>\<open>infillMultiplier[infill] ?? 1\<close>.
\<close>

definition baseCost :: "json \<Rightarrow> js_error + jsval" where
  "baseCost material = lookup_or materialCosts material (lit 0.05)"

definition qualityMult :: "json \<Rightarrow> js_error + jsval" where
  "qualityMult quality = lookup_or qualityMultiplier quality (lit 1)"

definition infillMult :: "json \<Rightarrow> js_error + jsval" where
  "infillMult infill = lookup_or infillMultiplier infill (lit 1)"

text \<open>\<^verbatim>\<open>Number(weight || 0)\<close>.\<close>

definition weight_number :: "json \<Rightarrow> js_error + jsnum" where
  "weight_number weight = to_number (js_or weight (JNum (lit 0)))"

text \<open>\<^verbatim>\<open>baseCost * Number(weight || 0) * qualityMult * infillMult\<close>, from left to right.\<close>

definition usdCost :: "jsval \<Rightarrow> jsnum \<Rightarrow> jsval \<Rightarrow> jsval \<Rightarrow> jsnum" where
  "usdCost bc w qm im = js_mul (js_mul (js_mul (operand bc) w) (operand qm)) (operand im)"

text \<open>
  The process environment maps a variable's name to its string, if it is set.
  \<^verbatim>\<open>Number(process.env.USD_TO_INR_RATE || 83)\<close>.
\<close>

type_synonym env = "string \<Rightarrow> string option"

definition process_env :: "env \<Rightarrow> string \<Rightarrow> json" where
  "process_env env var = (case env var of None \<Rightarrow> JUndefined | Some s \<Rightarrow> JStr s)"

definition usdToInrRate :: "env \<Rightarrow> js_error + jsnum" where
  "usdToInrRate env = to_number (js_or (process_env env ''USD_TO_INR_RATE'') (JNum (lit 83)))"

definition inrCost :: "jsnum \<Rightarrow> jsnum \<Rightarrow> jsnum" where
  "inrCost usd rate = js_mul usd rate"

text \<open>
  The values the handler computes before it answers, in the order of the source; the
  first conversion that throws ends the computation.
\<close>

record request =
  material :: json
  infill :: json
  quality :: json
  weight :: json
  color :: json
  name :: json
  email :: json
  number :: json
  fileUrl :: json
  filePath :: json
  s3Key :: json
  save :: json

record quote =
  q_weight :: jsnum
  q_usd :: jsnum
  q_inr :: jsnum

definition price :: "env \<Rightarrow> json \<Rightarrow> json \<Rightarrow> json \<Rightarrow> json \<Rightarrow> js_error + quote" where
  "price env m q i w =
     and_then (baseCost m) (\<lambda>bc.
     and_then (qualityMult q) (\<lambda>qm.
     and_then (infillMult i) (\<lambda>im.
     and_then (weight_number w) (\<lambda>wn.
     and_then (usdToInrRate env) (\<lambda>rate.
       Inr \<lparr>q_weight = wn, q_usd = usdCost bc wn qm im,
            q_inr = inrCost (usdCost bc wn qm im) rate\<rparr>)))))"

definition responsePayload :: "quote \<Rightarrow> (string \<times> json) list" where
  "responsePayload p =
     [(''success'', JBool True),
      (''weight'', JStr (toFixed 2 (q_weight p))),
      (''costUSD'', JStr (toFixed 2 (q_usd p))),
      (''costINR'', JStr (toFixed 2 (q_inr p)))]"

subsection \<open>The connection pool and the orders table\<close>

text \<open>
  The database driver is an external library, modelled by its contract. The state holds
  the rows of the \<^verbatim>\<open>orders\<close> table with their generated identifiers, the number of
  pooled connections that are checked out, and the driver calls made so far, each with
  whether it succeeded. What the database does with one request is the environment's
  choice: the pool grants no connection, the insert fails, or the insert succeeds and
  generates an identifier. Every driver call is taken to return or throw.
\<close>

record order_row =
  file_url :: json
  file_path :: json
  s3_key :: json
  material_col :: json
  color_col :: json
  infill_col :: json
  quality_col :: json
  weight_col :: jsnum
  cost_usd :: jsnum
  cost_inr :: jsnum
  customer_name :: json
  email_col :: json
  phone :: json

datatype db_call = GetConnection bool | Execute order_row bool | Release | Destroy

datatype db_outcome = PoolFails | InsertFails | InsertOk nat

record db =
  orders :: "(nat \<times> order_row) list"
  checked_out :: nat
  calls :: "db_call list"

definition getConnection :: "db_outcome \<Rightarrow> db \<Rightarrow> (js_error + unit) \<times> db" where
  "getConnection oc d =
     (if oc = PoolFails then (Inl DriverError, d\<lparr>calls := calls d @ [GetConnection False]\<rparr>)
      else (Inr (), d\<lparr>checked_out := checked_out d + 1,
                      calls := calls d @ [GetConnection True]\<rparr>))"

definition execute :: "db_outcome \<Rightarrow> order_row \<Rightarrow> db \<Rightarrow> (js_error + nat) \<times> db" where
  "execute oc row d =
     (case oc of
        InsertOk insertId \<Rightarrow>
          (Inr insertId, d\<lparr>orders := orders d @ [(insertId, row)],
                           calls := calls d @ [Execute row True]\<rparr>)
      | _ \<Rightarrow> (Inl DriverError, d\<lparr>calls := calls d @ [Execute row False]\<rparr>))"

definition release :: "db \<Rightarrow> db" where
  "release d = d\<lparr>checked_out := checked_out d - 1, calls := calls d @ [Release]\<rparr>"

subsection \<open>The handler\<close>

text \<open>The parameter array of the \<^verbatim>\<open>INSERT\<close>, one column each.\<close>

definition insert_params :: "request \<Rightarrow> quote \<Rightarrow> js_error + order_row" where
  "insert_params req p =
     and_then (to_number (weight req)) (\<lambda>w.
       Inr \<lparr>file_url = js_or (fileUrl req) JNull,
            file_path = js_or (filePath req) JNull,
            s3_key = js_or (s3Key req) JNull,
            material_col = js_or (material req) JNull,
            color_col = js_or (color req) JNull,
            infill_col = js_or (infill req) JNull,
            quality_col = js_or (quality req) JNull,
            weight_col = num_or_zero w,
            cost_usd = string_to_number (toFixed 2 (q_usd p)),
            cost_inr = string_to_number (toFixed 2 (q_inr p)),
            customer_name = js_or (name req) JNull,
            email_col = js_or (email req) JNull,
            phone = js_or (number req) JNull\<rparr>)"

text \<open>
  The branch \<^verbatim>\<open>if (save)\<close>: the connection is requested outside the inner
  \<^verbatim>\<open>try\<close>, the insert runs inside it, and \<^verbatim>\<open>finally\<close> releases the connection
  whether the insert returned or threw.
\<close>

definition save_order ::
  "db_outcome \<Rightarrow> request \<Rightarrow> quote \<Rightarrow> db \<Rightarrow> (js_error + (string \<times> json) list) \<times> db" where
  "save_order oc req p d =
     (case getConnection oc d of
        (Inl e, d1) \<Rightarrow> (Inl e, d1)
      | (Inr conn, d1) \<Rightarrow>
          let (r, d2) =
                (case insert_params req p of
                   Inl e \<Rightarrow> (Inl e, d1)
                 | Inr row \<Rightarrow>
                     (case execute oc row d1 of
                        (Inl e, d2) \<Rightarrow> (Inl e, d2)
                      | (Inr insertId, d2) \<Rightarrow>
                          (Inr (responsePayload p @
                                 [(''orderId'', JNum (lit (of_nat insertId))),
                                  (''message'', JStr ''Order saved to DB.'')]), d2)))
          in (r, release d2))"

definition order_try ::
  "env \<Rightarrow> db_outcome \<Rightarrow> request \<Rightarrow> db \<Rightarrow> (js_error + (string \<times> json) list) \<times> db" where
  "order_try env oc req d =
     (case price env (material req) (quality req) (infill req) (weight req) of
        Inl e \<Rightarrow> (Inl e, d)
      | Inr p \<Rightarrow>
          if truthy (save req) then save_order oc req p d
          else (Inr (responsePayload p), d))"

record response =
  status :: nat
  body :: json

text \<open>
  \<^verbatim>\<open>app.post("/api/order")\<close>: the payload is sent with status 200; whatever is thrown
  inside the outer \<^verbatim>\<open>try\<close> is answered with the generic status 500.
\<close>

definition server_error :: response where
  "server_error =
     \<lparr>status = 500, body = JObj [(''success'', JBool False), (''error'', JStr ''Server error'')]\<rparr>"

definition order_handler :: "env \<Rightarrow> db_outcome \<Rightarrow> request \<Rightarrow> db \<Rightarrow> response \<times> db" where
  "order_handler env oc req d =
     (case order_try env oc req d of
        (Inr payload, d') \<Rightarrow> (\<lparr>status = 200, body = JObj payload\<rparr>, d')
      | (Inl err, d') \<Rightarrow> (server_error, d'))"

text \<open>A field of a JSON response, if the body has it.\<close>

definition field :: "response \<Rightarrow> string \<Rightarrow> json option" where
  "field res k = (case body res of JObj kvs \<Rightarrow> map_of kvs k | _ \<Rightarrow> None)"

section \<open>Storage backend and the other routes\<close>

text \<open>
  \<^verbatim>\<open>useS3\<close> is assigned once, when the module is loaded, from the four object-store
  variables of the environment; a variable of the environment is truthy when it is set
  to a non-empty string. The server's state is that flag and the database.
\<close>

definition s3_configured :: "env \<Rightarrow> bool" where
  "s3_configured env =
     (truthy (process_env env ''AWS_ACCESS_KEY_ID'') \<and>
      truthy (process_env env ''AWS_SECRET_ACCESS_KEY'') \<and>
      truthy (process_env env ''AWS_REGION'') \<and>
      truthy (process_env env ''S3_BUCKET''))"

record server =
  useS3 :: bool
  database :: db

definition startup :: "env \<Rightarrow> db \<Rightarrow> server" where
  "startup env d = \<lparr>useS3 = s3_configured env, database = d\<rparr>"

text \<open>
  The upload middleware is built once from that flag: on the object store's storage
  engine when \<^verbatim>\<open>useS3\<close> holds, on the disk storage engine otherwise.
\<close>

datatype backend = LocalDisk | ObjectStore

definition upload_storage :: "server \<Rightarrow> backend" where
  "upload_storage srv = (if useS3 srv then ObjectStore else LocalDisk)"

text \<open>The four object-store variables, and what it is for a variable to be set.\<close>

definition s3_variables :: "string list" where
  "s3_variables = [''AWS_ACCESS_KEY_ID'', ''AWS_SECRET_ACCESS_KEY'', ''AWS_REGION'', ''S3_BUCKET'']"

definition is_set :: "env \<Rightarrow> string \<Rightarrow> bool" where
  "is_set env v = (case env v of None \<Rightarrow> False | Some s \<Rightarrow> s \<noteq> [])"

text \<open>
  \<^verbatim>\<open>app.post("/api/upload")\<close>, after the upload middleware has stored the file, if the
  request had one. The storage engine in use sets the file's fields it knows:
  \<^verbatim>\<open>location\<close> and \<^verbatim>\<open>key\<close> in the object store, \<^verbatim>\<open>filename\<close> and \<^verbatim>\<open>path\<close> on disk.
\<close>

record upload_file =
  originalname :: string
  location :: string
  key :: string
  filename :: string
  path :: string

definition upload_handler ::
  "server \<Rightarrow> string \<Rightarrow> string option \<Rightarrow> upload_file option \<Rightarrow> response" where
  "upload_handler srv protocol host file =
     (case file of
        None \<Rightarrow> \<lparr>status = 400, body = JObj [(''error'', JStr ''No file uploaded'')]\<rparr>
      | Some f \<Rightarrow>
          if useS3 srv then
            \<lparr>status = 200,
             body = JObj [(''fileUrl'', JStr (location f)),
                          (''s3Key'', JStr (key f)),
                          (''originalName'', JStr (originalname f)),
                          (''success'', JBool True),
                          (''storage'', JStr ''s3'')]\<rparr>
          else
            \<lparr>status = 200,
             body = JObj [(''fileUrl'', JStr (protocol @ ''://'' @
                             (case host of None \<Rightarrow> ''undefined'' | Some h \<Rightarrow> h) @
                             ''/uploads/'' @ filename f)),
                          (''filePath'', JStr (path f)),
                          (''originalName'', JStr (originalname f)),
                          (''success'', JBool True),
                          (''storage'', JStr ''disk'')]\<rparr>)"

text \<open>
  \<^verbatim>\<open>app.get("/api/presign")\<close>, a route that exists only when \<^verbatim>\<open>useS3\<close> holds. The
  signing call of the object-store client is a parameter: from the bucket, the key and
  the expiry it yields a URL or throws.
\<close>

type_synonym signer = "json \<Rightarrow> json \<Rightarrow> jsnum \<Rightarrow> js_error + string"

definition presign_handler :: "env \<Rightarrow> signer \<Rightarrow> json \<Rightarrow> response" where
  "presign_handler env getSignedUrl k =
     (if \<not> truthy k then \<lparr>status = 400, body = JObj [(''error'', JStr ''Missing key'')]\<rparr>
      else
        case and_then (to_number (js_or (process_env env ''PRESIGN_EXPIRES'') (JNum (lit 60))))
               (\<lambda>expires. getSignedUrl (process_env env ''S3_BUCKET'') k expires) of
          Inr url \<Rightarrow> \<lparr>status = 200, body = JObj [(''url'', JStr url)]\<rparr>
        | Inl err \<Rightarrow> \<lparr>status = 500, body = JObj [(''error'', JStr ''Unable to presign'')]\<rparr>)"

text \<open>
  One request to the running server. The environment is read again at each request,
  the flag \<^verbatim>\<open>useS3\<close> is not. A request for the signing route in local-disk mode
  meets no route.
\<close>

datatype http_request =
    GetRoot
  | PostUpload string "string option" "upload_file option"
  | PostOrder request
  | GetPresign json

definition handle ::
  "env \<Rightarrow> db_outcome \<Rightarrow> signer \<Rightarrow> server \<Rightarrow> http_request \<Rightarrow> response \<times> server" where
  "handle env oc getSignedUrl srv r =
     (case r of
        GetRoot \<Rightarrow> (\<lparr>status = 200, body = JStr ''Server is running!''\<rparr>, srv)
      | PostUpload protocol host file \<Rightarrow> (upload_handler srv protocol host file, srv)
      | PostOrder req \<Rightarrow>
          (case order_handler env oc req (database srv) of
             (res, d') \<Rightarrow> (res, srv\<lparr>database := d'\<rparr>))
      | GetPresign k \<Rightarrow>
          if useS3 srv then (presign_handler env getSignedUrl k, srv)
          else (\<lparr>status = 404, body = JUndefined\<rparr>, srv))"

text \<open>A run of the server: each request with the environment and the outcomes it meets.\<close>

fun run ::
  "server \<Rightarrow> (env \<times> db_outcome \<times> signer \<times> http_request) list \<Rightarrow> server" where
  "run srv [] = srv"
| "run srv ((env, oc, sg, r) # rest) = run (snd (handle env oc sg srv r)) rest"

section \<open>The infill domain in the words of the specification\<close>

text \<open>
  The specification describes the infill table as defined on the strings \<^verbatim>\<open>10%\<close>
  through \<^verbatim>\<open>90%\<close> in steps of 10. This list follows those words, to be compared with
  the keys of \<open>infillMultiplier\<close>.
\<close>

definition spec_infill_domain :: "string list" where
  "spec_infill_domain =
     [''10%'', ''20%'', ''30%'', ''40%'', ''50%'', ''60%'', ''70%'', ''80%'', ''90%'']"

section \<open>The table lookup in the words of the specification\<close>

text \<open>
  The specification describes each of the three lookups as the table's value at a
  recognised key and the default at any other key. This function follows those words, to
  be compared with \<open>lookup_or\<close>.
\<close>

definition spec_lookup :: "(string \<times> jsnum) list \<Rightarrow> string \<Rightarrow> jsnum \<Rightarrow> jsnum" where
  "spec_lookup table k d = (case map_of table k of Some x \<Rightarrow> x | None \<Rightarrow> d)"

section \<open>Example inputs\<close>

text \<open>
  The scenario of the specification: 100 grams of PLA at standard quality and 30 percent
  infill, no persistence requested, with its quote. Variants of it: with
  \<^verbatim>\<open>save: true\<close>; with the weight \<open>10^21\<close>; with the weight \<^verbatim>\<open>"abc"\<close>, saved or
  not, and the row that is then inserted; with the material \<^verbatim>\<open>"constructor"\<close>. An
  empty environment, one with the four object-store variables set, an empty database,
  and a signing call that always throws.
\<close>

definition req0 :: request where
  "req0 = \<lparr>material = JStr ''PLA'', infill = JStr ''30%'',
            quality = JStr ''0.2 mm Standard Quality'', weight = JNum (lit 100),
            color = JStr ''red'', name = JStr ''Ada'', email = JStr ''ada@example.org'',
            number = JStr ''555-0100'', fileUrl = JStr ''http://localhost:5000/uploads/1.stl'',
            filePath = JStr ''uploads/1.stl'', s3Key = JUndefined, save = JUndefined\<rparr>"

definition quote0 :: quote where
  "quote0 = \<lparr>q_weight = JFin False 100, q_usd = JFin False 5, q_inr = JFin False 415\<rparr>"

definition req_save :: request where
  "req_save = req0\<lparr>save := JBool True\<rparr>"

definition req_big :: request where
  "req_big = req0\<lparr>weight := JNum (lit 1000000000000000000000)\<rparr>"

definition quote_big :: quote where
  "quote_big = \<lparr>q_weight = JFin False (10 ^ 21), q_usd = JFin False (5 * 10 ^ 19),
                 q_inr = JFin False (415 * 10 ^ 19)\<rparr>"

definition req_abc :: request where
  "req_abc = req0\<lparr>weight := JStr ''abc''\<rparr>"

definition req_abc_save :: request where
  "req_abc_save = req_abc\<lparr>save := JBool True\<rparr>"

definition quote_nan :: quote where
  "quote_nan = \<lparr>q_weight = JNaN, q_usd = JNaN, q_inr = JNaN\<rparr>"

definition row_nan :: order_row where
  "row_nan = \<lparr>file_url = JStr ''http://localhost:5000/uploads/1.stl'',
              file_path = JStr ''uploads/1.stl'', s3_key = JNull,
              material_col = JStr ''PLA'', color_col = JStr ''red'', infill_col = JStr ''30%'',
              quality_col = JStr ''0.2 mm Standard Quality'', weight_col = JFin False 0,
              cost_usd = JNaN, cost_inr = JNaN, customer_name = JStr ''Ada'',
              email_col = JStr ''ada@example.org'', phone = JStr ''555-0100''\<rparr>"

definition req_constructor :: request where
  "req_constructor = req0\<lparr>material := JStr ''constructor''\<rparr>"

definition quote_constructor :: quote where
  "quote_constructor = \<lparr>q_weight = JFin False 100, q_usd = JNaN, q_inr = JNaN\<rparr>"

definition d0 :: db where
  "d0 = \<lparr>orders = [], checked_out = 0, calls = []\<rparr>"

definition env0 :: env where
  "env0 = (\<lambda>v. None)"

definition env_s3 :: env where
  "env_s3 = (\<lambda>v. if v \<in> set s3_variables then Some ''x'' else None)"

definition no_signer :: signer where
  "no_signer = (\<lambda>bucket k expires. Inl DriverError)"

section \<open>Basic facts\<close>

lemma and_then_Inl [simp]: "and_then (Inl e) f = Inl e"
  by (simp add: and_then_def)

lemma and_then_Inr [simp]: "and_then (Inr x) f = f x"
  by (simp add: and_then_def)

lemma and_then_eq_Inr: "and_then m f = Inr y \<longleftrightarrow> (\<exists>x. m = Inr x \<and> f x = Inr y)"
  by (cases m) simp_all

lemma usdToInrRate_total: "\<exists>rate. usdToInrRate env = Inr rate"
  by (cases "env ''USD_TO_INR_RATE''") (simp_all add: usdToInrRate_def process_env_def js_or_def)

lemma falsy_to_number: "\<not> truthy w \<Longrightarrow> \<exists>y. to_number w = Inr y"
  by (cases w) simp_all

lemma weight_number_to_number:
  assumes "weight_number w = Inr x"
  shows "\<exists>y. to_number w = Inr y"
proof (cases "truthy w")
  case True
  with assms show ?thesis by (simp add: weight_number_def js_or_def)
next
  case False
  then show ?thesis by (rule falsy_to_number)
qed

lemma price_Inr:
  "price env m q i w = Inr p \<longleftrightarrow>
     (\<exists>bc qm im wn rate. baseCost m = Inr bc \<and> qualityMult q = Inr qm \<and> infillMult i = Inr im \<and>
        weight_number w = Inr wn \<and> usdToInrRate env = Inr rate \<and>
        p = \<lparr>q_weight = wn, q_usd = usdCost bc wn qm im,
             q_inr = inrCost (usdCost bc wn qm im) rate\<rparr>)"
  unfolding price_def and_then_eq_Inr by auto

lemma insert_params_total:
  assumes "price env (material req) (quality req) (infill req) (weight req) = Inr p"
  shows "\<exists>row. insert_params req p = Inr row"
proof -
  from assms obtain wn where "weight_number (weight req) = Inr wn"
    unfolding price_Inr by blast
  then obtain y where "to_number (weight req) = Inr y"
    using weight_number_to_number by blast
  then show ?thesis by (simp add: insert_params_def)
qed

subsection \<open>The five ways through the handler\<close>

lemma order_handler_throw:
  assumes "price env (material req) (quality req) (infill req) (weight req) = Inl e"
  shows "order_handler env oc req d = (server_error, d)"
  using assms by (simp add: order_handler_def order_try_def)

lemma order_handler_no_save:
  assumes "price env (material req) (quality req) (infill req) (weight req) = Inr p"
    and "\<not> truthy (save req)"
  shows "order_handler env oc req d = (\<lparr>status = 200, body = JObj (responsePayload p)\<rparr>, d)"
  using assms by (simp add: order_handler_def order_try_def)

lemma order_handler_pool_fails:
  assumes "price env (material req) (quality req) (infill req) (weight req) = Inr p"
    and "truthy (save req)"
  shows "order_handler env PoolFails req d =
           (server_error, d\<lparr>calls := calls d @ [GetConnection False]\<rparr>)"
  using assms
  by (simp add: order_handler_def order_try_def save_order_def getConnection_def)

lemma order_handler_insert_fails:
  assumes "price env (material req) (quality req) (infill req) (weight req) = Inr p"
    and "truthy (save req)" and "insert_params req p = Inr row"
  shows "order_handler env InsertFails req d =
           (server_error,
            d\<lparr>calls := calls d @ [GetConnection True, Execute row False, Release]\<rparr>)"
  using assms
  by (simp add: order_handler_def order_try_def save_order_def getConnection_def execute_def
      release_def)

lemma order_handler_insert_ok:
  assumes "price env (material req) (quality req) (infill req) (weight req) = Inr p"
    and "truthy (save req)" and "insert_params req p = Inr row"
  shows "order_handler env (InsertOk i) req d =
           (\<lparr>status = 200,
             body = JObj (responsePayload p @
                      [(''orderId'', JNum (lit (of_nat i))),
                       (''message'', JStr ''Order saved to DB.'')])\<rparr>,
            d\<lparr>orders := orders d @ [(i, row)],
              calls := calls d @ [GetConnection True, Execute row True, Release]\<rparr>)"
  using assms
  by (simp add: order_handler_def order_try_def save_order_def getConnection_def execute_def
      release_def)

lemma order_handler_cases:
  obtains
    (throw) e where "price env (material req) (quality req) (infill req) (weight req) = Inl e"
      and "order_handler env oc req d = (server_error, d)"
  | (quote) p where "price env (material req) (quality req) (infill req) (weight req) = Inr p"
      and "\<not> truthy (save req)"
      and "order_handler env oc req d =
             (\<lparr>status = 200, body = JObj (responsePayload p @ [])\<rparr>, d)"
  | (pool) p where "price env (material req) (quality req) (infill req) (weight req) = Inr p"
      and "truthy (save req)" and "oc = PoolFails"
      and "order_handler env oc req d =
             (server_error, d\<lparr>calls := calls d @ [GetConnection False]\<rparr>)"
  | (insert_fails) p row where
      "price env (material req) (quality req) (infill req) (weight req) = Inr p"
      and "truthy (save req)" and "oc = InsertFails" and "insert_params req p = Inr row"
      and "order_handler env oc req d =
             (server_error,
              d\<lparr>calls := calls d @ [GetConnection True, Execute row False, Release]\<rparr>)"
  | (insert_ok) p row i where
      "price env (material req) (quality req) (infill req) (weight req) = Inr p"
      and "truthy (save req)" and "oc = InsertOk i" and "insert_params req p = Inr row"
      and "order_handler env oc req d =
             (\<lparr>status = 200,
               body = JObj (responsePayload p @
                        [(''orderId'', JNum (lit (of_nat i))),
                         (''message'', JStr ''Order saved to DB.'')])\<rparr>,
              d\<lparr>orders := orders d @ [(i, row)],
                calls := calls d @ [GetConnection True, Execute row True, Release]\<rparr>)"
proof (cases "price env (material req) (quality req) (infill req) (weight req)")
  case (Inl e)
  then show ?thesis using order_handler_throw that(1) by blast
next
  case (Inr p)
  show ?thesis
  proof (cases "truthy (save req)")
    case False
    with Inr order_handler_no_save [of env req p oc d] that(2) show ?thesis by simp
  next
    case True
    from insert_params_total [OF Inr] obtain row where row: "insert_params req p = Inr row" ..
    show ?thesis
    proof (cases oc)
      case PoolFails
      with Inr True order_handler_pool_fails that(3) show ?thesis by blast
    next
      case InsertFails
      with Inr True row order_handler_insert_fails that(4) show ?thesis by blast
    next
      case (InsertOk i)
      with Inr True row order_handler_insert_ok that(5) show ?thesis by blast
    qed
  qed
qed

lemma field_server_error [simp]:
  "field server_error k = (if k = ''success'' then Some (JBool False)
                           else if k = ''error'' then Some (JStr ''Server error'') else None)"
  by (simp add: field_def server_error_def)

lemma field_payload:
  "field \<lparr>status = st, body = JObj (responsePayload p @ extra)\<rparr> k =
     (if k = ''success'' then Some (JBool True)
      else if k = ''weight'' then Some (JStr (toFixed 2 (q_weight p)))
      else if k = ''costUSD'' then Some (JStr (toFixed 2 (q_usd p)))
      else if k = ''costINR'' then Some (JStr (toFixed 2 (q_inr p)))
      else map_of extra k)"
  by (simp add: field_def responsePayload_def)


lemma status_server_error [simp]: "status server_error = 500"
  by (simp add: server_error_def)

lemma js_mul_NaN_right [simp]: "js_mul x JNaN = JNaN"
  by (cases x) simp_all

lemma falsy_weight_number:
  assumes "\<not> truthy w"
  shows "weight_number w = Inr (JFin False 0)"
  using assms by (simp add: weight_number_def js_or_def to_double_def)

lemma usdToInrRate_default:
  assumes "\<not> is_set env ''USD_TO_INR_RATE''"
  shows "usdToInrRate env = Inr (lit 83)"
  using assms
  by (cases "env ''USD_TO_INR_RATE''")
    (simp_all add: usdToInrRate_def process_env_def js_or_def is_set_def)

lemma usdToInrRate_configured:
  assumes "env ''USD_TO_INR_RATE'' = Some s" and "s \<noteq> []"
  shows "usdToInrRate env = Inr (string_to_number s)"
  using assms by (simp add: usdToInrRate_def process_env_def js_or_def)

lemma usdToInrRate_cong:
  "env' ''USD_TO_INR_RATE'' = env ''USD_TO_INR_RATE'' \<Longrightarrow> usdToInrRate env' = usdToInrRate env"
  by (simp add: usdToInrRate_def process_env_def)

lemma price_cong:
  "env' ''USD_TO_INR_RATE'' = env ''USD_TO_INR_RATE'' \<Longrightarrow> price env' m q i w = price env m q i w"
  by (simp add: price_def usdToInrRate_cong [of env' env])

lemma quote_of_success:
  assumes "order_handler env oc req d = (res, d')" and "status res = 200"
  shows "\<exists>p. price env (material req) (quality req) (infill req) (weight req) = Inr p \<and>
           field res ''weight'' = Some (JStr (toFixed 2 (q_weight p))) \<and>
           field res ''costUSD'' = Some (JStr (toFixed 2 (q_usd p))) \<and>
           field res ''costINR'' = Some (JStr (toFixed 2 (q_inr p)))"
proof (cases rule: order_handler_cases [of env req oc d])
  case (throw e)
  with assms(1) have "res = server_error" by simp
  with assms(2) show ?thesis by simp
next
  case (quote p)
  with assms(1) have "res = \<lparr>status = 200, body = JObj (responsePayload p @ [])\<rparr>" by simp
  with quote(1) show ?thesis by (simp only: field_payload) simp
next
  case (pool p)
  with assms(1) have "res = server_error" by simp
  with assms(2) show ?thesis by simp
next
  case (insert_fails p row)
  with assms(1) have "res = server_error" by simp
  with assms(2) show ?thesis by simp
next
  case (insert_ok p row i)
  from insert_ok(5) assms(1) have "res = \<lparr>status = 200,
      body = JObj (responsePayload p @
               [(''orderId'', JNum (lit (of_nat i))),
                (''message'', JStr ''Order saved to DB.'')])\<rparr>" by simp
  with insert_ok(1) show ?thesis by (simp only: field_payload) simp
qed

text \<open>
  A truthy weight that \<^verbatim>\<open>Number\<close> turns into \<open>NaN\<close> makes both costs \<open>NaN\<close>,
  whatever the other fields are.
\<close>

lemma non_numeric_weight_costs:
  assumes "order_handler env oc req d = (res, d')" and "status res = 200"
    and "truthy (weight req)" and "to_number (weight req) = Inr JNaN"
  shows "field res ''costUSD'' = Some (JStr ''NaN'') \<and> field res ''costINR'' = Some (JStr ''NaN'')"
proof -
  from quote_of_success [OF assms(1,2)] obtain p where
    p: "price env (material req) (quality req) (infill req) (weight req) = Inr p"
    and usd: "field res ''costUSD'' = Some (JStr (toFixed 2 (q_usd p)))"
    and inr: "field res ''costINR'' = Some (JStr (toFixed 2 (q_inr p)))" by blast
  from assms(3,4) have "weight_number (weight req) = Inr JNaN"
    by (simp add: weight_number_def js_or_def)
  with p have "q_usd p = JNaN" and "q_inr p = JNaN"
    unfolding price_Inr by (auto simp add: usdCost_def inrCost_def)
  with usd inr show ?thesis by simp
qed

subsection \<open>The format of a rendered price\<close>

lemma digit_nth: "k < 10 \<Longrightarrow> is_digit (''0123456789'' ! k)"
  unfolding is_digit_def by (rule nth_mem) simp

lemma int_digits_digits: "list_all is_digit (int_digits n) \<and> int_digits n \<noteq> []"
proof (induction n rule: int_digits.induct)
  case (1 n)
  show ?case
  proof (cases "n < 10")
    case True
    then have "nat n < 10" by simp
    with True show ?thesis by (simp add: int_digits.simps [of n] digit_nth)
  next
    case False
    have "nat (n mod 10) < 10" by simp
    with False 1 show ?thesis by (simp add: int_digits.simps [of n] digit_nth)
  qed
qed

lemma two_decimals_digits:
  assumes "list_all is_digit ds" and "ds \<noteq> []" and "list_all is_digit fs" and "length fs = 2"
  shows "two_decimals (ds @ ''.'' @ fs)"
proof -
  from assms(1,2) have "is_digit (hd ds)" by (cases ds) simp_all
  then have "hd ds \<noteq> CHR ''-''" by (auto simp add: is_digit_def)
  with assms(2) have "take 1 (ds @ ''.'' @ fs) \<noteq> ''-''" by (cases ds) simp_all
  moreover have "length (ds @ ''.'' @ fs) - 3 = length ds" using assms(4) by simp
  moreover have "length (ds @ ''.'' @ fs) - 2 = length ds + 1" using assms(4) by simp
  moreover from assms(2) have "1 \<le> length ds" by (cases ds) simp_all
  ultimately show ?thesis
    using assms by (simp add: two_decimals_def Let_def nth_append)
qed

lemma two_decimals_minus:
  assumes "two_decimals u" and "take 1 u \<noteq> ''-''"
  shows "two_decimals (''-'' @ u)"
  using assms by (simp add: two_decimals_def Let_def)

lemma toFixed_two_decimals:
  assumes "fixed_range x"
  shows "two_decimals (toFixed 2 x)"
proof -
  from assms obtain s m where x: "x = JFin s m" and m: "m < 10 ^ 21"
    by (cases x) (simp_all add: fixed_range_def)
  define ds where "ds = int_digits (round_half_up (m * 10 ^ 2))"
  define pd where "pd = (if length ds \<le> 2 then replicate (3 - length ds) (CHR ''0'') @ ds else ds)"
  have ds: "list_all is_digit ds" "ds \<noteq> []"
    using int_digits_digits by (simp_all add: ds_def)
  have zero: "is_digit (CHR ''0'')" by (simp add: is_digit_def)
  have pd: "list_all is_digit pd" "3 \<le> length pd"
    using ds zero by (auto simp add: pd_def list_all_iff)
  let ?a = "take (length pd - 2) pd" and ?b = "drop (length pd - 2) pd"
  have a: "list_all is_digit ?a" "?a \<noteq> []"
    using pd by (auto simp add: list_all_iff dest: in_set_takeD)
  have b: "list_all is_digit ?b" "length ?b = 2"
    using pd by (auto simp add: list_all_iff dest: in_set_dropD)
  have shape: "two_decimals (?a @ ''.'' @ ?b)"
    using a b by (rule two_decimals_digits)
  from a have "is_digit (hd ?a)" by (cases ?a) simp_all
  then have "hd ?a \<noteq> CHR ''-''" by (auto simp add: is_digit_def)
  with a(2) have nominus: "take 1 (?a @ ''.'' @ ?b) \<noteq> ''-''" by (cases ?a) simp_all
  have "toFixed 2 x = (if s \<and> m \<noteq> 0 then ''-'' else '''') @ (?a @ ''.'' @ ?b)"
    using m by (simp add: x Let_def ds_def pd_def)
  then show ?thesis
    using shape two_decimals_minus [OF shape nominus] by (cases "s \<and> m \<noteq> 0") simp_all
qed

subsection \<open>The tables\<close>

lemma material_table:
  "map (\<lambda>k. baseCost (JStr k))
     [''PLA'', ''ABS'', ''PETG'', ''TPU'', ''ASA'', ''PLA Glass'', ''Engineering'', ''ePLA''] =
   map (\<lambda>q. Inr (Number (lit q))) [0.05, 0.06, 0.07, 0.08, 0.07, 0.06, 0.12, 0.06]"
  by (simp add: baseCost_def lookup_or_def get_prop_def materialCosts_def)

lemma material_default:
  assumes "s \<notin> set (map fst materialCosts)" and "s \<notin> set object_prototype_keys"
  shows "baseCost (JStr s) = Inr (Number (lit 0.05))"
proof -
  from assms(1) have "map_of materialCosts s = None"
    by (simp add: map_of_eq_None_iff)
  with assms(2) show ?thesis
    by (simp add: baseCost_def lookup_or_def get_prop_def)
qed

lemma inherited_keys:
  "list_all (\<lambda>k. baseCost (JStr k) = Inr Inherited \<and> qualityMult (JStr k) = Inr Inherited \<and>
                infillMult (JStr k) = Inr Inherited) object_prototype_keys"
  by (simp add: baseCost_def qualityMult_def infillMult_def lookup_or_def get_prop_def
      materialCosts_def qualityMultiplier_def infillMultiplier_def object_prototype_keys_def)

lemma lit_0_6_not_1: "lit 0.6 \<noteq> lit 1"
  by code_simp

subsection \<open>The storage flag\<close>

lemma handle_useS3: "useS3 (snd (handle env oc sg srv r)) = useS3 srv"
  by (cases r) (simp_all add: handle_def split: prod.splits)

lemma run_useS3: "useS3 (run srv reqs) = useS3 srv"
proof (induction reqs arbitrary: srv)
  case Nil
  show ?case by simp
next
  case (Cons x reqs)
  obtain env oc sg r where x: "x = (env, oc, sg, r)" by (cases x)
  show ?case by (simp add: x Cons.IH handle_useS3)
qed

lemma s3_configured_iff: "s3_configured env \<longleftrightarrow> list_all (is_set env) s3_variables"
  by (simp add: s3_configured_def s3_variables_def is_set_def process_env_def
      split: option.splits)

subsection \<open>The examples, evaluated\<close>

lemma abc_not_numeric: "string_to_number ''abc'' = JNaN"
  by code_simp

lemma req0_price:
  "price env0 (JStr ''PLA'') (JStr ''0.2 mm Standard Quality'') (JStr ''30%'') (JNum (lit 100)) =
     Inr quote0"
  apply (simp add: price_def baseCost_def qualityMult_def infillMult_def lookup_or_def get_prop_def
      materialCosts_def qualityMultiplier_def infillMultiplier_def weight_number_def js_or_def
      usdToInrRate_def process_env_def env0_def usdCost_def inrCost_def quote0_def)
  apply code_simp
  done

lemma req_big_price:
  "price env0 (JStr ''PLA'') (JStr ''0.2 mm Standard Quality'') (JStr ''30%'')
     (JNum (lit 1000000000000000000000)) = Inr quote_big"
  apply (simp add: price_def baseCost_def qualityMult_def infillMult_def lookup_or_def get_prop_def
      materialCosts_def qualityMultiplier_def infillMultiplier_def weight_number_def js_or_def
      usdToInrRate_def process_env_def env0_def usdCost_def inrCost_def quote_big_def)
  apply code_simp
  done

lemma req_abc_price:
  "price env0 (JStr ''PLA'') (JStr ''0.2 mm Standard Quality'') (JStr ''30%'') (JStr ''abc'') =
     Inr quote_nan"
  by (simp add: price_def baseCost_def qualityMult_def infillMult_def lookup_or_def get_prop_def
      materialCosts_def qualityMultiplier_def infillMultiplier_def weight_number_def js_or_def
      usdToInrRate_def process_env_def env0_def usdCost_def inrCost_def quote_nan_def
      abc_not_numeric)

lemma req_constructor_price:
  "price env0 (JStr ''constructor'') (JStr ''0.2 mm Standard Quality'') (JStr ''30%'')
     (JNum (lit 100)) = Inr quote_constructor"
  apply (simp add: price_def baseCost_def qualityMult_def infillMult_def lookup_or_def get_prop_def
      materialCosts_def qualityMultiplier_def infillMultiplier_def weight_number_def js_or_def
      usdToInrRate_def process_env_def env0_def usdCost_def inrCost_def quote_constructor_def
      object_prototype_keys_def)
  apply code_simp
  done

lemma payload0:
  "responsePayload quote0 =
     [(''success'', JBool True), (''weight'', JStr ''100.00''),
      (''costUSD'', JStr ''5.00''), (''costINR'', JStr ''415.00'')]"
  by code_simp

lemma payload_big:
  "responsePayload quote_big =
     [(''success'', JBool True), (''weight'', JStr ''1e+21''),
      (''costUSD'', JStr ''50000000000000000000.00''), (''costINR'', JStr ''4.15e+21'')]"
  by code_simp

lemma payload_nan:
  "responsePayload quote_nan =
     [(''success'', JBool True), (''weight'', JStr ''NaN''),
      (''costUSD'', JStr ''NaN''), (''costINR'', JStr ''NaN'')]"
  by (simp add: responsePayload_def quote_nan_def)

lemma payload_constructor:
  "responsePayload quote_constructor =
     [(''success'', JBool True), (''weight'', JStr ''100.00''),
      (''costUSD'', JStr ''NaN''), (''costINR'', JStr ''NaN'')]"
  by code_simp

lemma req_abc_params: "insert_params req_abc_save quote_nan = Inr row_nan"
  by code_simp

lemma handler_req0:
  "order_handler env0 oc req0 d0 =
     (\<lparr>status = 200, body = JObj (responsePayload quote0)\<rparr>, d0)"
  by (rule order_handler_no_save) (simp_all add: req0_def req0_price)

lemma handler_req_big:
  "order_handler env0 oc req_big d0 =
     (\<lparr>status = 200, body = JObj (responsePayload quote_big)\<rparr>, d0)"
  by (rule order_handler_no_save) (simp_all add: req_big_def req0_def req_big_price)

lemma handler_req_abc:
  "order_handler env0 oc req_abc d0 =
     (\<lparr>status = 200, body = JObj (responsePayload quote_nan)\<rparr>, d0)"
  by (rule order_handler_no_save) (simp_all add: req_abc_def req0_def req_abc_price)

lemma handler_req_constructor:
  "order_handler env0 oc req_constructor d0 =
     (\<lparr>status = 200, body = JObj (responsePayload quote_constructor)\<rparr>, d0)"
  by (rule order_handler_no_save)
    (simp_all add: req_constructor_def req0_def req_constructor_price)

lemma handler_req_abc_save:
  "order_handler env0 (InsertOk 7) req_abc_save d0 =
     (\<lparr>status = 200,
       body = JObj (responsePayload quote_nan @
                [(''orderId'', JNum (lit (of_nat 7))),
                 (''message'', JStr ''Order saved to DB.'')])\<rparr>,
      d0\<lparr>orders := orders d0 @ [(7, row_nan)],
         calls := calls d0 @ [GetConnection True, Execute row_nan True, Release]\<rparr>)"
proof (rule order_handler_insert_ok)
  show "price env0 (material req_abc_save) (quality req_abc_save) (infill req_abc_save)
      (weight req_abc_save) = Inr quote_nan"
    by (simp add: req_abc_save_def req_abc_def req0_def req_abc_price)
  show "truthy (save req_abc_save)"
    by (simp add: req_abc_save_def)
  show "insert_params req_abc_save quote_nan = Inr row_nan"
    by (rule req_abc_params)
qed

lemma req_save_price:
  "price env0 (material req_save) (quality req_save) (infill req_save) (weight req_save) =
     Inr quote0"
  by (simp add: req_save_def req0_def req0_price)

lemma req_save_truthy: "truthy (save req_save)"
  by (simp add: req_save_def)

lemma handler_req_save_pool_fails:
  "order_handler env0 PoolFails req_save d0 =
     (server_error, d0\<lparr>calls := calls d0 @ [GetConnection False]\<rparr>)"
  using req_save_price req_save_truthy by (rule order_handler_pool_fails)

lemma handler_req_save_insert_fails:
  "\<exists>row. insert_params req_save quote0 = Inr row \<and>
     order_handler env0 InsertFails req_save d0 =
       (server_error,
        d0\<lparr>calls := calls d0 @ [GetConnection True, Execute row False, Release]\<rparr>)"
proof -
  from insert_params_total [OF req_save_price] obtain row
    where row: "insert_params req_save quote0 = Inr row" ..
  from order_handler_insert_fails [OF req_save_price req_save_truthy row] row
  show ?thesis by blast
qed

lemma handler_req_save_insert_ok:
  "\<exists>row. insert_params req_save quote0 = Inr row \<and>
     order_handler env0 (InsertOk i) req_save d0 =
       (\<lparr>status = 200,
         body = JObj (responsePayload quote0 @
                  [(''orderId'', JNum (lit (of_nat i))),
                   (''message'', JStr ''Order saved to DB.'')])\<rparr>,
        d0\<lparr>orders := orders d0 @ [(i, row)],
           calls := calls d0 @ [GetConnection True, Execute row True, Release]\<rparr>)"
proof -
  from insert_params_total [OF req_save_price] obtain row
    where row: "insert_params req_save quote0 = Inr row" ..
  from order_handler_insert_ok [OF req_save_price req_save_truthy row] row
  show ?thesis by blast
qed

subsection \<open>The lookups and the weight on ordinary inputs\<close>

lemma lookup_or_spec_lookup:
  assumes "to_string j = Inr k" and "k \<notin> set object_prototype_keys"
  shows "lookup_or table j d = Inr (Number (spec_lookup table k d))"
  using assms by (simp add: lookup_or_def get_prop_def spec_lookup_def split: option.splits)

lemma truthy_weight_number:
  assumes "truthy w"
  shows "weight_number w = to_number w"
  using assms by (simp add: weight_number_def js_or_def)

subsection \<open>Digits at a power of two\<close>

lemma toFixed_power_of_two:
  "toFixed 2 (JFin False (2 ^ 89)) = ''6.189700196426902e+26''"
  by code_simp

section \<open>The claims\<close>

text \<open>
  Claim C1, amended. The statement is about an order request that is answered with a
  quote (status 200), whose material, quality and infill, read as property keys, are not
  names that an object literal inherits, and whose weight is not a truthy value that
  \<^verbatim>\<open>Number\<close> turns into \<open>NaN\<close>. For such a request the weight operand \<open>w\<close> is
  \<open>0\<close> when the weight is falsy and \<^verbatim>\<open>Number(weight)\<close> when it is truthy, and it is a
  number. \<^verbatim>\<open>costUSD\<close> is \<open>toFixed 2\<close> of the product of the material's base cost (the
  table's value at a recognised material, 0.05 at any other), \<open>w\<close>, the quality
  multiplier and the infill multiplier (the table's value at a recognised key, 1 at any
  other), and \<^verbatim>\<open>costINR\<close> is \<open>toFixed 2\<close> of that product times the rate: 83 when
  \<^verbatim>\<open>USD_TO_INR_RATE\<close> is not set, the variable's string read as a number when it is. Each
  string has two decimals whenever the value rendered is finite with a magnitude below
  \<open>10^21\<close>. Both strings are determined by the material, quality, infill and weight of
  the request and the rate variable: two answered requests that agree on these carry the
  same two strings.
\<close>

theorem order_quote_formula:
  assumes "order_handler env oc req d = (res, d')" and "status res = 200"
    and "to_string (material req) = Inr km" and "km \<notin> set object_prototype_keys"
    and "to_string (quality req) = Inr kq" and "kq \<notin> set object_prototype_keys"
    and "to_string (infill req) = Inr ki" and "ki \<notin> set object_prototype_keys"
    and "\<not> (truthy (weight req) \<and> to_number (weight req) = Inr JNaN)"
  shows "(\<exists>w rate usd inr.
            (truthy (weight req) \<longrightarrow> to_number (weight req) = Inr w) \<and>
            (\<not> truthy (weight req) \<longrightarrow> w = JFin False 0) \<and>
            w \<noteq> JNaN \<and>
            (\<not> is_set env ''USD_TO_INR_RATE'' \<longrightarrow> rate = lit 83) \<and>
            (\<forall>s. env ''USD_TO_INR_RATE'' = Some s \<and> s \<noteq> [] \<longrightarrow> rate = string_to_number s) \<and>
            usd = js_mul (js_mul (js_mul (spec_lookup materialCosts km (lit 0.05)) w)
                    (spec_lookup qualityMultiplier kq (lit 1)))
                    (spec_lookup infillMultiplier ki (lit 1)) \<and>
            inr = js_mul usd rate \<and>
            field res ''costUSD'' = Some (JStr (toFixed 2 usd)) \<and>
            field res ''costINR'' = Some (JStr (toFixed 2 inr)) \<and>
            (fixed_range usd \<longrightarrow> two_decimals (toFixed 2 usd)) \<and>
            (fixed_range inr \<longrightarrow> two_decimals (toFixed 2 inr)))
       \<and> (\<forall>env2 oc2 req2 d2 res2 d2'.
            order_handler env2 oc2 req2 d2 = (res2, d2') \<and> status res2 = 200 \<and>
            material req2 = material req \<and> quality req2 = quality req \<and>
            infill req2 = infill req \<and> weight req2 = weight req \<and>
            env2 ''USD_TO_INR_RATE'' = env ''USD_TO_INR_RATE'' \<longrightarrow>
            field res2 ''costUSD'' = field res ''costUSD'' \<and>
            field res2 ''costINR'' = field res ''costINR'')"
proof (intro conjI allI impI)
  from quote_of_success [OF assms(1,2)] obtain p where
    p: "price env (material req) (quality req) (infill req) (weight req) = Inr p"
    and usd: "field res ''costUSD'' = Some (JStr (toFixed 2 (q_usd p)))"
    and inr: "field res ''costINR'' = Some (JStr (toFixed 2 (q_inr p)))" by blast
  from p obtain bc qm im wn rate where parts:
    "baseCost (material req) = Inr bc" "qualityMult (quality req) = Inr qm"
    "infillMult (infill req) = Inr im" "weight_number (weight req) = Inr wn"
    "usdToInrRate env = Inr rate"
    and pq: "p = \<lparr>q_weight = wn, q_usd = usdCost bc wn qm im,
          q_inr = inrCost (usdCost bc wn qm im) rate\<rparr>"
    unfolding price_Inr by blast
  have bc: "operand bc = spec_lookup materialCosts km (lit 0.05)"
    using parts(1) lookup_or_spec_lookup [OF assms(3,4), of materialCosts "lit 0.05"]
    by (auto simp add: baseCost_def)
  have qm: "operand qm = spec_lookup qualityMultiplier kq (lit 1)"
    using parts(2) lookup_or_spec_lookup [OF assms(5,6), of qualityMultiplier "lit 1"]
    by (auto simp add: qualityMult_def)
  have im: "operand im = spec_lookup infillMultiplier ki (lit 1)"
    using parts(3) lookup_or_spec_lookup [OF assms(7,8), of infillMultiplier "lit 1"]
    by (auto simp add: infillMult_def)
  have w1: "truthy (weight req) \<longrightarrow> to_number (weight req) = Inr wn"
    using parts(4) truthy_weight_number [of "weight req"] by auto
  have w2: "\<not> truthy (weight req) \<longrightarrow> wn = JFin False 0"
    using parts(4) falsy_weight_number [of "weight req"] by auto
  have w3: "wn \<noteq> JNaN"
    using w1 w2 assms(9) by (cases "truthy (weight req)") auto
  define u where "u = js_mul (js_mul (js_mul (spec_lookup materialCosts km (lit 0.05)) wn)
      (spec_lookup qualityMultiplier kq (lit 1))) (spec_lookup infillMultiplier ki (lit 1))"
  have "q_usd p = u" and "q_inr p = js_mul u rate"
    by (simp_all add: pq u_def usdCost_def inrCost_def bc qm im)
  with usd inr have "field res ''costUSD'' = Some (JStr (toFixed 2 u))"
    and "field res ''costINR'' = Some (JStr (toFixed 2 (js_mul u rate)))" by simp_all
  moreover have "\<not> is_set env ''USD_TO_INR_RATE'' \<longrightarrow> rate = lit 83"
    using parts(5) usdToInrRate_default [of env] by auto
  moreover have "\<forall>s. env ''USD_TO_INR_RATE'' = Some s \<and> s \<noteq> [] \<longrightarrow> rate = string_to_number s"
    using parts(5) usdToInrRate_configured [of env] by auto
  moreover have "fixed_range u \<longrightarrow> two_decimals (toFixed 2 u)"
    and "fixed_range (js_mul u rate) \<longrightarrow> two_decimals (toFixed 2 (js_mul u rate))"
    by (simp_all add: toFixed_two_decimals)
  ultimately show "\<exists>w rate usd inr.
      (truthy (weight req) \<longrightarrow> to_number (weight req) = Inr w) \<and>
      (\<not> truthy (weight req) \<longrightarrow> w = JFin False 0) \<and>
      w \<noteq> JNaN \<and>
      (\<not> is_set env ''USD_TO_INR_RATE'' \<longrightarrow> rate = lit 83) \<and>
      (\<forall>s. env ''USD_TO_INR_RATE'' = Some s \<and> s \<noteq> [] \<longrightarrow> rate = string_to_number s) \<and>
      usd = js_mul (js_mul (js_mul (spec_lookup materialCosts km (lit 0.05)) w)
              (spec_lookup qualityMultiplier kq (lit 1)))
              (spec_lookup infillMultiplier ki (lit 1)) \<and>
      inr = js_mul usd rate \<and>
      field res ''costUSD'' = Some (JStr (toFixed 2 usd)) \<and>
      field res ''costINR'' = Some (JStr (toFixed 2 inr)) \<and>
      (fixed_range usd \<longrightarrow> two_decimals (toFixed 2 usd)) \<and>
      (fixed_range inr \<longrightarrow> two_decimals (toFixed 2 inr))"
    using w1 w2 w3 unfolding u_def by blast
next
  fix env2 oc2 req2 d2 res2 d2'
  assume second: "order_handler env2 oc2 req2 d2 = (res2, d2') \<and> status res2 = 200 \<and>
      material req2 = material req \<and> quality req2 = quality req \<and>
      infill req2 = infill req \<and> weight req2 = weight req \<and>
      env2 ''USD_TO_INR_RATE'' = env ''USD_TO_INR_RATE''"
  from quote_of_success [OF assms(1,2)] obtain p where
    p: "price env (material req) (quality req) (infill req) (weight req) = Inr p"
    and usd: "field res ''costUSD'' = Some (JStr (toFixed 2 (q_usd p)))"
    and inr: "field res ''costINR'' = Some (JStr (toFixed 2 (q_inr p)))" by blast
  from second have run2: "order_handler env2 oc2 req2 d2 = (res2, d2')" "status res2 = 200"
    by simp_all
  from quote_of_success [OF run2] obtain p2 where
    p2: "price env2 (material req2) (quality req2) (infill req2) (weight req2) = Inr p2"
    and usd2: "field res2 ''costUSD'' = Some (JStr (toFixed 2 (q_usd p2)))"
    and inr2: "field res2 ''costINR'' = Some (JStr (toFixed 2 (q_inr p2)))" by blast
  from second have "price env2 (material req2) (quality req2) (infill req2) (weight req2) =
      price env (material req) (quality req) (infill req) (weight req)"
    by (simp add: price_cong [of env2 env])
  with p p2 have "p2 = p" by simp
  with usd inr usd2 inr2 show "field res2 ''costUSD'' = field res ''costUSD''"
    and "field res2 ''costINR'' = field res ''costINR''" by simp_all
qed

theorem order_quote_formula_witness:
  "status (fst (order_handler env0 PoolFails req0 d0)) = 200 \<and>
   to_string (material req0) = Inr ''PLA'' \<and> ''PLA'' \<notin> set object_prototype_keys \<and>
   to_string (quality req0) = Inr ''0.2 mm Standard Quality'' \<and>
   ''0.2 mm Standard Quality'' \<notin> set object_prototype_keys \<and>
   to_string (infill req0) = Inr ''30%'' \<and> ''30%'' \<notin> set object_prototype_keys \<and>
   truthy (weight req0) \<and> to_number (weight req0) = Inr (JFin False 100) \<and>
   field (fst (order_handler env0 PoolFails req0 d0)) ''costUSD'' = Some (JStr ''5.00'') \<and>
   field (fst (order_handler env0 PoolFails req0 d0)) ''costINR'' = Some (JStr ''415.00'') \<and>
   (\<exists>w rate usd inr.
      (truthy (weight req0) \<longrightarrow> to_number (weight req0) = Inr w) \<and>
      (\<not> truthy (weight req0) \<longrightarrow> w = JFin False 0) \<and>
      w \<noteq> JNaN \<and>
      (\<not> is_set env0 ''USD_TO_INR_RATE'' \<longrightarrow> rate = lit 83) \<and>
      (\<forall>s. env0 ''USD_TO_INR_RATE'' = Some s \<and> s \<noteq> [] \<longrightarrow> rate = string_to_number s) \<and>
      usd = js_mul (js_mul (js_mul (spec_lookup materialCosts ''PLA'' (lit 0.05)) w)
              (spec_lookup qualityMultiplier ''0.2 mm Standard Quality'' (lit 1)))
              (spec_lookup infillMultiplier ''30%'' (lit 1)) \<and>
      inr = js_mul usd rate \<and>
      field (fst (order_handler env0 PoolFails req0 d0)) ''costUSD'' =
        Some (JStr (toFixed 2 usd)) \<and>
      field (fst (order_handler env0 PoolFails req0 d0)) ''costINR'' =
        Some (JStr (toFixed 2 inr)) \<and>
      (fixed_range usd \<longrightarrow> two_decimals (toFixed 2 usd)) \<and>
      (fixed_range inr \<longrightarrow> two_decimals (toFixed 2 inr)))"
proof -
  have ok: "status (fst (order_handler env0 PoolFails req0 d0)) = 200"
    by (simp add: handler_req0)
  have km: "to_string (material req0) = Inr ''PLA''" "''PLA'' \<notin> set object_prototype_keys"
    by (simp_all add: req0_def object_prototype_keys_def)
  have kq: "to_string (quality req0) = Inr ''0.2 mm Standard Quality''"
    "''0.2 mm Standard Quality'' \<notin> set object_prototype_keys"
    by (simp_all add: req0_def object_prototype_keys_def)
  have ki: "to_string (infill req0) = Inr ''30%''" "''30%'' \<notin> set object_prototype_keys"
    by (simp_all add: req0_def object_prototype_keys_def)
  have lit100: "lit 100 = JFin False 100" by code_simp
  have w: "truthy (weight req0)" "to_number (weight req0) = Inr (JFin False 100)"
    by (simp_all add: req0_def lit100)
  from w have num: "\<not> (truthy (weight req0) \<and> to_number (weight req0) = Inr JNaN)" by simp
  have strings:
    "field (fst (order_handler env0 PoolFails req0 d0)) ''costUSD'' = Some (JStr ''5.00'')"
    "field (fst (order_handler env0 PoolFails req0 d0)) ''costINR'' = Some (JStr ''415.00'')"
    by (simp_all add: handler_req0 payload0 field_def)
  from order_quote_formula [OF prod.collapse [symmetric] ok km kq ki num] ok km kq ki w strings
  show ?thesis by blast
qed

text \<open>
  The claim as stated fails where it promises two decimals for every request: for the
  weight \<open>10^21\<close>, a JSON number, the request is answered with status 200 and
  \<^verbatim>\<open>costINR\<close> is \<^verbatim>\<open>4.15e+21\<close>.
\<close>

theorem quote_format_counterexample:
  "status (fst (order_handler env0 PoolFails req_big d0)) = 200 \<and>
   field (fst (order_handler env0 PoolFails req_big d0)) ''costINR'' = Some (JStr ''4.15e+21'') \<and>
   \<not> two_decimals ''4.15e+21''"
  by (simp add: handler_req_big payload_big field_def two_decimals_def is_digit_def)

text \<open>
  Claim C2. The code at the failing input: for the weight \<^verbatim>\<open>"abc"\<close>, a non-numeric
  value, the handler raises no error and answers with status 200, but
  \<^verbatim>\<open>Number("abc" || 0)\<close> is \<open>NaN\<close> and the costs are rendered \<^verbatim>\<open>NaN\<close>, not 0.
  (\<open>non_numeric_weight_costs\<close> above shows the same for every truthy weight that is
  not numeric; \<open>falsy_weight_number\<close> is the part of the claim that holds, a missing
  weight counting as 0.)
\<close>

theorem non_numeric_weight_gives_NaN:
  "weight req_abc = JStr ''abc'' \<and>
   fst (order_handler env0 PoolFails req_abc d0) =
     \<lparr>status = 200,
      body = JObj [(''success'', JBool True), (''weight'', JStr ''NaN''),
                   (''costUSD'', JStr ''NaN''), (''costINR'', JStr ''NaN'')]\<rparr>"
  by (simp add: handler_req_abc payload_nan, simp add: req_abc_def)

text \<open>
  Claim C3, amended. The infill table is defined on ten strings, \<^verbatim>\<open>15%\<close> among them:
  on \<^verbatim>\<open>10%\<close>, \<^verbatim>\<open>15%\<close>, \<^verbatim>\<open>20%\<close>, \<^verbatim>\<open>30%\<close> and so on in steps of 10 up to
  \<^verbatim>\<open>90%\<close> the lookup yields, in this order, exactly 0.5, 0.6, 0.8, 1, 1.1, 1.2, 1.3, 1.4,
  1.5, 1.6; and it yields 1 for every other infill string that is not the name of a
  property inherited from \<^verbatim>\<open>Object.prototype\<close>.
\<close>

theorem infill_table:
  "map (\<lambda>k. infillMult (JStr k))
     [''10%'', ''15%'', ''20%'', ''30%'', ''40%'', ''50%'', ''60%'', ''70%'', ''80%'', ''90%''] =
   map (\<lambda>q. Inr (Number (lit q))) [0.5, 0.6, 0.8, 1, 1.1, 1.2, 1.3, 1.4, 1.5, 1.6] \<and>
   (\<forall>s. s \<notin> set [''10%'', ''15%'', ''20%'', ''30%'', ''40%'', ''50%'', ''60%'', ''70%'', ''80%'',
                   ''90%''] \<and>
        s \<notin> set object_prototype_keys \<longrightarrow>
        infillMult (JStr s) = Inr (Number (lit 1)))"
proof (intro conjI allI impI)
  show "map (\<lambda>k. infillMult (JStr k))
     [''10%'', ''15%'', ''20%'', ''30%'', ''40%'', ''50%'', ''60%'', ''70%'', ''80%'', ''90%''] =
   map (\<lambda>q. Inr (Number (lit q))) [0.5, 0.6, 0.8, 1, 1.1, 1.2, 1.3, 1.4, 1.5, 1.6]"
    by (simp add: infillMult_def lookup_or_def get_prop_def infillMultiplier_def)
next
  fix s
  assume s: "s \<notin> set [''10%'', ''15%'', ''20%'', ''30%'', ''40%'', ''50%'', ''60%'', ''70%'',
                       ''80%'', ''90%''] \<and> s \<notin> set object_prototype_keys"
  then have "s \<notin> set (map fst infillMultiplier)"
    by (simp add: infillMultiplier_def)
  then have "map_of infillMultiplier s = None"
    by (simp add: map_of_eq_None_iff)
  with s show "infillMult (JStr s) = Inr (Number (lit 1))"
    by (simp add: infillMult_def lookup_or_def get_prop_def)
qed

theorem infill_table_witness:
  "''25%'' \<notin> set [''10%'', ''15%'', ''20%'', ''30%'', ''40%'', ''50%'', ''60%'', ''70%'', ''80%'',
                    ''90%''] \<and>
   ''25%'' \<notin> set object_prototype_keys \<and>
   infillMult (JStr ''25%'') = Inr (Number (lit 1))"
  using infill_table by (simp add: object_prototype_keys_def)

text \<open>
  The claim as stated fails at \<^verbatim>\<open>15%\<close>: the string is outside the domain the claim
  names, whose nine strings cannot carry ten multipliers, and its multiplier is 0.6,
  which is not 1.
\<close>

theorem infill_domain_counterexample:
  "''15%'' \<notin> set spec_infill_domain \<and>
   infillMult (JStr ''15%'') = Inr (Number (lit 0.6)) \<and>
   Inr (Number (lit 0.6)) \<noteq> (Inr (Number (lit 1)) :: js_error + jsval) \<and>
   length spec_infill_domain = 9"
  using lit_0_6_not_1
  by (simp add: spec_infill_domain_def infillMult_def lookup_or_def get_prop_def
      infillMultiplier_def)

text \<open>
  Claim C4. The code at the failing input: the material \<^verbatim>\<open>"constructor"\<close> is none of
  the eight keys, yet \<^verbatim>\<open>materialCosts["constructor"]\<close> is the function inherited from
  \<^verbatim>\<open>Object.prototype\<close>, so \<^verbatim>\<open>??\<close> does not put 0.05 in its place; the base cost is
  not a number and both costs are rendered \<^verbatim>\<open>NaN\<close>. (\<open>inherited_keys\<close> above
  shows the same lookup result for each of the twelve inherited names; \<open>material_table\<close>
  and \<open>material_default\<close> are the part of the claim that holds.)
\<close>

theorem inherited_material_key:
  "baseCost (JStr ''constructor'') = Inr Inherited \<and>
   fst (order_handler env0 PoolFails req_constructor d0) =
     \<lparr>status = 200,
      body = JObj [(''success'', JBool True), (''weight'', JStr ''100.00''),
                   (''costUSD'', JStr ''NaN''), (''costINR'', JStr ''NaN'')]\<rparr>"
  by (simp add: handler_req_constructor payload_constructor baseCost_def lookup_or_def
      get_prop_def materialCosts_def object_prototype_keys_def)

text \<open>
  Claim C5, amended. Every order request is answered in one of two ways. Either no
  conversion of its fields throws and the save flag is falsy or the insert succeeds:
  then the response has status 200 and carries the computed quote, \<^verbatim>\<open>weight\<close>,
  \<^verbatim>\<open>costUSD\<close> and \<^verbatim>\<open>costINR\<close>. Or a conversion throws, or persistence is requested
  and the pool grants no connection or the insert fails: then the response is the generic
  server error of status 500 and carries no quote.
\<close>

theorem quote_or_server_error:
  assumes "order_handler env oc req d = (res, d')"
  shows "(\<exists>p. price env (material req) (quality req) (infill req) (weight req) = Inr p \<and>
            (\<not> truthy (save req) \<or> (\<exists>i. oc = InsertOk i)) \<and>
            status res = 200 \<and>
            field res ''weight'' = Some (JStr (toFixed 2 (q_weight p))) \<and>
            field res ''costUSD'' = Some (JStr (toFixed 2 (q_usd p))) \<and>
            field res ''costINR'' = Some (JStr (toFixed 2 (q_inr p))))
       \<or> (((\<exists>e. price env (material req) (quality req) (infill req) (weight req) = Inl e) \<or>
             truthy (save req) \<and> (oc = PoolFails \<or> oc = InsertFails)) \<and>
            res = server_error \<and>
            field res ''weight'' = None \<and> field res ''costUSD'' = None \<and>
            field res ''costINR'' = None)"
proof (cases rule: order_handler_cases [of env req oc d])
  case (throw e)
  with assms show ?thesis by simp
next
  case (quote p)
  with assms have "res = \<lparr>status = 200, body = JObj (responsePayload p @ [])\<rparr>" by simp
  with quote(1,2) show ?thesis by (simp only: field_payload) simp
next
  case (pool p)
  with assms show ?thesis by simp
next
  case (insert_fails p row)
  with assms show ?thesis by simp
next
  case (insert_ok p row i)
  with assms have "res = \<lparr>status = 200,
      body = JObj (responsePayload p @
               [(''orderId'', JNum (lit (of_nat i))),
                (''message'', JStr ''Order saved to DB.'')])\<rparr>" by simp
  with insert_ok(1,3) show ?thesis by (simp only: field_payload) simp
qed

theorem quote_or_server_error_witness:
  "\<not> truthy (save req0) \<and>
   price env0 (material req0) (quality req0) (infill req0) (weight req0) = Inr quote0 \<and>
   status (fst (order_handler env0 InsertFails req0 d0)) = 200 \<and>
   field (fst (order_handler env0 InsertFails req0 d0)) ''costUSD'' =
     Some (JStr (toFixed 2 (q_usd quote0)))"
proof -
  have ns: "\<not> truthy (save req0)"
    and pr: "price env0 (material req0) (quality req0) (infill req0) (weight req0) = Inr quote0"
    by (simp_all add: req0_def req0_price)
  from quote_or_server_error [of env0 InsertFails req0 d0
      "fst (order_handler env0 InsertFails req0 d0)"
      "snd (order_handler env0 InsertFails req0 d0)"] ns pr
  show ?thesis by auto
qed

text \<open>
  The claim as stated fails where persistence is requested and the insert fails: the
  response is the generic server error and has none of the three fields of a quote.
\<close>

theorem quote_always_counterexample:
  "truthy (save req_save) \<and>
   fst (order_handler env0 InsertFails req_save d0) =
     \<lparr>status = 500,
      body = JObj [(''success'', JBool False), (''error'', JStr ''Server error'')]\<rparr> \<and>
   field (fst (order_handler env0 InsertFails req_save d0)) ''weight'' = None \<and>
   field (fst (order_handler env0 InsertFails req_save d0)) ''costUSD'' = None \<and>
   field (fst (order_handler env0 InsertFails req_save d0)) ''costINR'' = None"
proof -
  from handler_req_save_insert_fails
  have "fst (order_handler env0 InsertFails req_save d0) = server_error" by auto
  then show ?thesis by (simp add: req_save_truthy) (simp add: server_error_def)
qed

text \<open>
  Claim C6. For every order request with a truthy save flag whose insert succeeds, that
  is, after which the orders table has changed: the database generated an identifier
  \<open>i\<close> and the table gained exactly the row \<open>(i, row)\<close>; the response carries
  \<^verbatim>\<open>orderId\<close> \<open>i\<close>, a number and so not \<^verbatim>\<open>null\<close>, and the message
  \<^verbatim>\<open>Order saved to DB.\<close>; and the row's \<^verbatim>\<open>cost_usd\<close> and \<^verbatim>\<open>cost_inr\<close> are the
  response's \<^verbatim>\<open>costUSD\<close> and \<^verbatim>\<open>costINR\<close> strings read as numbers.
\<close>

theorem saved_order_response:
  assumes "order_handler env oc req d = (res, d')" and "truthy (save req)"
    and "orders d' \<noteq> orders d"
  shows "\<exists>i row u v. oc = InsertOk i \<and> orders d' = orders d @ [(i, row)] \<and>
           field res ''orderId'' = Some (JNum (lit (of_nat i))) \<and>
           field res ''orderId'' \<noteq> Some JNull \<and>
           field res ''message'' = Some (JStr ''Order saved to DB.'') \<and>
           field res ''costUSD'' = Some (JStr u) \<and> cost_usd row = string_to_number u \<and>
           field res ''costINR'' = Some (JStr v) \<and> cost_inr row = string_to_number v"
proof (cases rule: order_handler_cases [of env req oc d])
  case (throw e)
  with assms show ?thesis by simp
next
  case (quote p)
  with assms show ?thesis by simp
next
  case (pool p)
  with assms show ?thesis by simp
next
  case (insert_fails p row)
  with assms show ?thesis by simp
next
  case (insert_ok p row i)
  from insert_ok(4) have "cost_usd row = string_to_number (toFixed 2 (q_usd p))"
    and "cost_inr row = string_to_number (toFixed 2 (q_inr p))"
    by (auto simp add: insert_params_def and_then_eq_Inr)
  moreover from insert_ok(5) assms(1)
  have "res = \<lparr>status = 200,
               body = JObj (responsePayload p @
                        [(''orderId'', JNum (lit (of_nat i))),
                         (''message'', JStr ''Order saved to DB.'')])\<rparr>"
    and "orders d' = orders d @ [(i, row)]" by auto
  ultimately show ?thesis using insert_ok(3) by (simp only: field_payload) simp
qed

theorem saved_order_response_witness:
  "truthy (save req_save) \<and>
   orders (snd (order_handler env0 (InsertOk 7) req_save d0)) \<noteq> orders d0 \<and>
   (\<exists>i row u v. InsertOk 7 = InsertOk i \<and>
      orders (snd (order_handler env0 (InsertOk 7) req_save d0)) = orders d0 @ [(i, row)] \<and>
      field (fst (order_handler env0 (InsertOk 7) req_save d0)) ''orderId'' =
        Some (JNum (lit (of_nat i))) \<and>
      field (fst (order_handler env0 (InsertOk 7) req_save d0)) ''orderId'' \<noteq> Some JNull \<and>
      field (fst (order_handler env0 (InsertOk 7) req_save d0)) ''message'' =
        Some (JStr ''Order saved to DB.'') \<and>
      field (fst (order_handler env0 (InsertOk 7) req_save d0)) ''costUSD'' = Some (JStr u) \<and>
      cost_usd row = string_to_number u \<and>
      field (fst (order_handler env0 (InsertOk 7) req_save d0)) ''costINR'' = Some (JStr v) \<and>
      cost_inr row = string_to_number v)"
proof -
  from handler_req_save_insert_ok [of 7]
  have changed: "orders (snd (order_handler env0 (InsertOk 7) req_save d0)) \<noteq> orders d0"
    by auto
  from saved_order_response [OF prod.collapse [symmetric] req_save_truthy changed]
    req_save_truthy changed
  show ?thesis by blast
qed

text \<open>
  Claim C7, amended. For every order request with a truthy save flag whose price
  computation does not throw, the handler asks the pool for a connection exactly once.
  If the pool grants it, the insert is executed on it and the connection is released
  exactly once, after the insert, whether the insert succeeded or failed; it is never
  destroyed. If the pool grants none, no further driver call is made. Either way the
  number of connections checked out is afterwards what it was before.
\<close>

theorem connection_scope:
  assumes "order_handler env oc req d = (res, d')" and "truthy (save req)"
    and "price env (material req) (quality req) (infill req) (weight req) = Inr p"
  shows "\<exists>row cs. insert_params req p = Inr row \<and> calls d' = calls d @ cs \<and>
           cs = (if oc = PoolFails then [GetConnection False]
                 else [GetConnection True, Execute row (oc \<noteq> InsertFails), Release]) \<and>
           Destroy \<notin> set cs \<and> checked_out d' = checked_out d"
proof (cases rule: order_handler_cases [of env req oc d])
  case (throw e)
  with assms show ?thesis by simp
next
  case (quote q)
  with assms show ?thesis by simp
next
  case (pool q)
  from insert_params_total [OF assms(3)] obtain row where "insert_params req p = Inr row" ..
  with pool assms show ?thesis by auto
next
  case (insert_fails q row)
  with assms show ?thesis by auto
next
  case (insert_ok q row i)
  with assms show ?thesis by auto
qed

theorem connection_scope_witness:
  "truthy (save req_save) \<and>
   price env0 (material req_save) (quality req_save) (infill req_save) (weight req_save) =
     Inr quote0 \<and>
   (\<exists>row cs. insert_params req_save quote0 = Inr row \<and>
      calls (snd (order_handler env0 InsertFails req_save d0)) = calls d0 @ cs \<and>
      cs = [GetConnection True, Execute row False, Release] \<and>
      Destroy \<notin> set cs \<and>
      checked_out (snd (order_handler env0 InsertFails req_save d0)) = checked_out d0)"
  using connection_scope [OF prod.collapse [symmetric] req_save_truthy req_save_price,
      of InsertFails d0] req_save_truthy req_save_price
  by simp

text \<open>
  The claim as stated fails where the pool grants no connection: a connection is
  requested but none is acquired, and none is released.
\<close>

theorem connection_counterexample:
  "truthy (save req_save) \<and>
   calls (snd (order_handler env0 PoolFails req_save d0)) = [GetConnection False] \<and>
   count_list (calls (snd (order_handler env0 PoolFails req_save d0))) (GetConnection True) \<noteq> 1 \<and>
   count_list (calls (snd (order_handler env0 PoolFails req_save d0))) Release = 0"
  by (simp add: handler_req_save_pool_fails req_save_truthy, simp add: d0_def)

text \<open>
  Claim C8. The storage backend is a function of whether the four object-store variables
  are set, each to a non-empty string: the object store is selected if and only if all
  four are, and the local disk otherwise. Two environments that agree on the four
  variables select the same backend, and the backend after any run of requests is the
  one selected at startup.
\<close>

theorem storage_mode:
  "(upload_storage (startup env d) = ObjectStore \<longleftrightarrow> list_all (is_set env) s3_variables) \<and>
   (upload_storage (startup env d) = LocalDisk \<longleftrightarrow> \<not> list_all (is_set env) s3_variables) \<and>
   (list_all (\<lambda>v. env2 v = env v) s3_variables \<longrightarrow>
      upload_storage (startup env2 d2) = upload_storage (startup env d)) \<and>
   upload_storage (run (startup env d) reqs) = upload_storage (startup env d)"
proof (intro conjI impI)
  show "upload_storage (startup env d) = ObjectStore \<longleftrightarrow> list_all (is_set env) s3_variables"
    by (simp add: upload_storage_def startup_def s3_configured_iff)
  show "upload_storage (startup env d) = LocalDisk \<longleftrightarrow> \<not> list_all (is_set env) s3_variables"
    by (simp add: upload_storage_def startup_def s3_configured_iff)
  show "upload_storage (run (startup env d) reqs) = upload_storage (startup env d)"
    by (simp add: upload_storage_def run_useS3)
next
  assume "list_all (\<lambda>v. env2 v = env v) s3_variables"
  then have "list_all (is_set env2) s3_variables = list_all (is_set env) s3_variables"
    by (simp add: s3_variables_def is_set_def)
  then show "upload_storage (startup env2 d2) = upload_storage (startup env d)"
    by (simp add: upload_storage_def startup_def s3_configured_iff)
qed

theorem storage_mode_witness:
  "list_all (is_set env_s3) s3_variables \<and>
   list_all (\<lambda>v. (env_s3 (''PORT'' := Some ''5000'')) v = env_s3 v) s3_variables \<and>
   upload_storage (startup env_s3 d0) = ObjectStore \<and>
   upload_storage (startup (env_s3 (''PORT'' := Some ''5000'')) d0) = ObjectStore \<and>
   upload_storage (run (startup env_s3 d0)
     [(env0, InsertOk 1, no_signer, PostOrder req_save),
      (env0, PoolFails, no_signer, GetPresign (JStr ''uploads/1.stl''))]) = ObjectStore"
proof -
  have a: "list_all (is_set env_s3) s3_variables"
    by (simp add: env_s3_def s3_variables_def is_set_def)
  have b: "list_all (\<lambda>v. (env_s3 (''PORT'' := Some ''5000'')) v = env_s3 v) s3_variables"
    by (simp add: s3_variables_def)
  from storage_mode [of env_s3 d0 "env_s3 (''PORT'' := Some ''5000'')" d0
      "[(env0, InsertOk 1, no_signer, PostOrder req_save),
        (env0, PoolFails, no_signer, GetPresign (JStr ''uploads/1.stl''))]"] a b
  show ?thesis by simp
qed

text \<open>
  Claim C9. For every order request with a truthy save flag and a non-numeric weight,
  one that \<^verbatim>\<open>Number\<close> turns into \<open>NaN\<close>, whose row is inserted: the weight stored in
  the row is 0, while the weight echoed in the response is \<open>toFixed 2\<close> of
  \<^verbatim>\<open>Number(weight || 0)\<close>. When the weight is truthy as well, as \<^verbatim>\<open>"abc"\<close> is, the
  echoed string is \<^verbatim>\<open>NaN\<close>, so the stored and the echoed weight disagree.
\<close>

theorem weight_stored_and_echoed:
  assumes "order_handler env oc req d = (res, d')" and "truthy (save req)"
    and "to_number (weight req) = Inr JNaN" and "orders d' = orders d @ [(i, row)]"
  shows "weight_col row = JFin False 0 \<and>
         (\<exists>w. weight_number (weight req) = Inr w \<and>
              field res ''weight'' = Some (JStr (toFixed 2 w))) \<and>
         (truthy (weight req) \<longrightarrow> field res ''weight'' = Some (JStr ''NaN''))"
proof (cases rule: order_handler_cases [of env req oc d])
  case (throw e)
  with assms(1,4) show ?thesis by simp
next
  case (quote p)
  with assms(2) show ?thesis by simp
next
  case (pool p)
  with assms(1,4) show ?thesis by simp
next
  case (insert_fails p row')
  with assms(1,4) show ?thesis by simp
next
  case (insert_ok p row' j)
  from insert_ok(5) assms(1,4) have row: "row' = row" by simp
  from insert_ok(4) assms(3) have "weight_col row' = num_or_zero JNaN"
    by (auto simp add: insert_params_def)
  then have stored: "weight_col row = JFin False 0"
    by (simp add: row num_or_zero_def to_double_def)
  from insert_ok(1) obtain w where w: "weight_number (weight req) = Inr w" and qw: "q_weight p = w"
    unfolding price_Inr by auto
  from insert_ok(5) assms(1) have "res = \<lparr>status = 200,
      body = JObj (responsePayload p @
               [(''orderId'', JNum (lit (of_nat j))),
                (''message'', JStr ''Order saved to DB.'')])\<rparr>" by simp
  then have echo: "field res ''weight'' = Some (JStr (toFixed 2 w))"
    by (simp only: field_payload) (simp add: qw)
  have "field res ''weight'' = Some (JStr ''NaN'')" if "truthy (weight req)"
  proof -
    from that assms(3) have "weight_number (weight req) = Inr JNaN"
      by (simp add: weight_number_def js_or_def)
    with w have "w = JNaN" by simp
    with echo show ?thesis by simp
  qed
  with stored w echo show ?thesis by blast
qed

theorem weight_stored_and_echoed_witness:
  "truthy (save req_abc_save) \<and> to_number (weight req_abc_save) = Inr JNaN \<and>
   orders (snd (order_handler env0 (InsertOk 7) req_abc_save d0)) = orders d0 @ [(7, row_nan)] \<and>
   truthy (weight req_abc_save) \<and>
   weight_col row_nan = JFin False 0 \<and>
   field (fst (order_handler env0 (InsertOk 7) req_abc_save d0)) ''weight'' = Some (JStr ''NaN'')"
proof -
  have sv: "truthy (save req_abc_save)" and tw: "truthy (weight req_abc_save)"
    and nn: "to_number (weight req_abc_save) = Inr JNaN"
    by (simp_all add: req_abc_save_def req_abc_def req0_def abc_not_numeric)
  have ins: "orders (snd (order_handler env0 (InsertOk 7) req_abc_save d0)) =
      orders d0 @ [(7, row_nan)]"
    by (simp add: handler_req_abc_save)
  from weight_stored_and_echoed [OF prod.collapse [symmetric] sv nn ins] sv tw nn ins
  show ?thesis by blast
qed

text \<open>
  Claim C10. For every order request with a falsy save flag the handler leaves the
  database state as it was: no driver call is made, no connection is checked out and the
  orders table is unchanged. The response has neither an \<^verbatim>\<open>orderId\<close> nor a
  \<^verbatim>\<open>message\<close> field.
\<close>

theorem no_save_no_database:
  assumes "order_handler env oc req d = (res, d')" and "\<not> truthy (save req)"
  shows "d' = d \<and> field res ''orderId'' = None \<and> field res ''message'' = None"
proof (cases "price env (material req) (quality req) (infill req) (weight req)")
  case (Inl e)
  from order_handler_throw [OF Inl, of oc d] assms(1) show ?thesis by simp
next
  case (Inr p)
  from order_handler_no_save [OF Inr assms(2), of oc d] assms(1)
  have "d' = d" and "res = \<lparr>status = 200, body = JObj (responsePayload p @ [])\<rparr>" by simp_all
  then show ?thesis by (simp only: field_payload) simp
qed

theorem no_save_no_database_witness:
  "\<not> truthy (save req0) \<and>
   snd (order_handler env0 (InsertOk 1) req0 d0) = d0 \<and>
   field (fst (order_handler env0 (InsertOk 1) req0 d0)) ''orderId'' = None \<and>
   field (fst (order_handler env0 (InsertOk 1) req0 d0)) ''message'' = None"
  using no_save_no_database [of env0 "InsertOk 1" req0 d0
      "fst (order_handler env0 (InsertOk 1) req0 d0)"
      "snd (order_handler env0 (InsertOk 1) req0 d0)"]
  by (simp add: req0_def)

end
